theory Spec2Isabelle
  imports Main "HOL-Library.Sublist" "HOL-Library.Word"
begin

section \<open>The qcloud cns DNS-01 provider (dns/qcloud/qcloud.go)\<close>

text \<open>
  Go strings are byte sequences: \<^typ>\<open>string\<close> (a list of \<^typ>\<open>char\<close>, one per byte).
  Go's \<open>int\<close> is modelled by \<^typ>\<open>int\<close>: the provider never computes with the record
  and zone identifiers or with the TTL, it only stores, compares and prints them.
  \<open>time.Duration\<close> is a 64-bit integer.
\<close>

type_synonym Duration = "64 word"

subsection \<open>Errors\<close>

text \<open>
  A Go \<open>error\<close> value. \<open>ErrorString msg\<close> is what \<open>errors.New\<close> and a
  \<open>fmt.Errorf\<close> without \<open>%w\<close> build; \<open>WrapError msg err\<close> is what \<open>fmt.Errorf\<close>
  with \<open>%w\<close> builds: the formatted message together with the wrapped error.
\<close>

datatype goerror = ErrorString string | WrapError string goerror

fun Error :: "goerror \<Rightarrow> string" where
  "Error (ErrorString msg) = msg"
| "Error (WrapError msg err) = msg"

text \<open>\<open>fmt.Errorf(ctx + "%v", err)\<close> and \<open>fmt.Errorf(ctx + "%w", err)\<close>.\<close>

definition Errorf_v :: "string \<Rightarrow> goerror \<Rightarrow> goerror" where
  "Errorf_v ctx err = ErrorString (ctx @ Error err)"

definition Errorf_w :: "string \<Rightarrow> goerror \<Rightarrow> goerror" where
  "Errorf_w ctx err = WrapError (ctx @ Error err) err"

text \<open>
  A method of the provider either panics (a run-time error of the Go program, here the
  slice bounds check) or returns an \<open>error\<close> that is not nil.
\<close>

datatype failure = Panic | Returned goerror

subsection \<open>The helpers of package dns01\<close>

text \<open>
  Modelled from the spec: \<open>dns01.ToFqdn\<close> and \<open>dns01.UnFqdn\<close> belong to the calling
  framework and are not part of this repository. \<open>ToFqdn\<close> makes a name fully qualified
  by appending a dot unless the name is empty or has one; \<open>UnFqdn\<close> removes the trailing
  dot of a fully qualified name.
\<close>

definition ToFqdn :: "string \<Rightarrow> string" where
  "ToFqdn name = (if name = [] \<or> last name = CHR ''.'' then name else name @ ''.'')"

definition UnFqdn :: "string \<Rightarrow> string" where
  "UnFqdn name = (if name \<noteq> [] \<and> last name = CHR ''.'' then butlast name else name)"

subsection \<open>extractRecordName\<close>

text \<open>
  \<open>strings.Index(s, substr)\<close>: the index of the first occurrence of \<open>substr\<close> in \<open>s\<close>,
  or \<open>-1\<close> when there is none.
\<close>

fun strings_Index :: "string \<Rightarrow> string \<Rightarrow> int" where
  "strings_Index [] substr = (if substr = [] then 0 else -1)"
| "strings_Index (c # s) substr =
     (if prefix substr (c # s) then 0
      else (let idx = strings_Index s substr in if idx = -1 then -1 else idx + 1))"

definition extractRecordName :: "string \<Rightarrow> string \<Rightarrow> string" where
  "extractRecordName fqdn domain =
     (let name = UnFqdn fqdn;
          idx = strings_Index name (''.'' @ domain)
      in if idx \<noteq> -1 then take (nat idx) name else name)"

text \<open>
  The leaf name in the spec's words: the name without its trailing dot, and without the
  zone suffix (a dot followed by the zone name) when the name ends with it.
\<close>

definition stripZoneSuffix :: "string \<Rightarrow> string \<Rightarrow> string" where
  "stripZoneSuffix fqdn zone =
     (let name = UnFqdn fqdn
      in if suffix (''.'' @ zone) name
         then take (length name - length (''.'' @ zone)) name else name)"

subsection \<open>The vendor's data (package cns) and the configuration\<close>

text \<open>
  Modelled from the spec: the types \<open>cns.Domain\<close> and \<open>cns.Record\<close> belong to the vendor's
  client library, which is not part of this repository. The records below have the fields
  that the provider reads or writes; a field that the provider leaves out of a composite
  literal has Go's zero value.
\<close>

record Domain =
  Domain_Id :: int
  Domain_Name :: string

record Record =
  Record_Id :: int
  Record_Type :: string
  Record_Name :: string
  Record_Value :: string
  Record_Line :: string
  Record_Ttl :: int

text \<open>\<open>var hostedZone cns.Domain\<close>: the zero value.\<close>

definition zeroDomain :: Domain where
  "zeroDomain = \<lparr>Domain_Id = 0, Domain_Name = []\<rparr>"

record httpClient =
  Timeout_of :: Duration

record Config =
  SecretId :: string
  SecretKey :: string
  TTL :: int
  PropagationTimeout :: Duration
  PollingInterval :: Duration
  HTTPClient :: "httpClient option"

text \<open>\<open>cns.New(secretId, secretKey)\<close> stores the two secrets in the client.\<close>

record Client =
  Client_SecretId :: string
  Client_SecretKey :: string

definition cns_New :: "string \<Rightarrow> string \<Rightarrow> Client" where
  "cns_New secretId secretKey = \<lparr>Client_SecretId = secretId, Client_SecretKey = secretKey\<rparr>"

text \<open>
  A \<open>DNSProvider\<close> holds two pointers, \<open>None\<close> is nil: both are nil in the zero value
  \<open>DNSProvider{}\<close> of the exported type, and neither is in a provider that a constructor
  returns. No method assigns to them. Reading a field through a nil \<open>config\<close> panics.
\<close>

record DNSProvider =
  config :: "Config option"
  client :: "Client option"

subsection \<open>The outside world\<close>

text \<open>
  The vendor's HTTP API and the DNS queries of package dns01 are outside the program.
  They are parameters of the model: functions on a state \<open>'w\<close> of the outside world,
  which every call may read and change. The methods of the vendor's client are called on
  \<open>d.client\<close> and are taken to return: a panic inside the vendor's library, as on a client
  that is nil, is not part of the model. Each returns what the Go function returns:
  a value, or an error that is not nil. \<open>GetRecord\<close> gives the challenge's FQDN and
  TXT value for a domain and a key authorization.
\<close>

record 'w outside =
  DomainList :: "'w \<Rightarrow> (goerror + Domain list) \<times> 'w"
  RecordList :: "string \<Rightarrow> 'w \<Rightarrow> (goerror + Record list) \<times> 'w"
  RecordCreate :: "string \<Rightarrow> Record \<Rightarrow> 'w \<Rightarrow> (goerror + int) \<times> 'w"
  RecordDelete :: "string \<Rightarrow> int \<Rightarrow> 'w \<Rightarrow> goerror option \<times> 'w"
  FindZoneByFqdn :: "string \<Rightarrow> 'w \<Rightarrow> (goerror + string) \<times> 'w"
  GetRecord :: "string \<Rightarrow> string \<Rightarrow> string \<times> string"

text \<open>
  The calls of the vendor's API that the provider makes are recorded, each with its
  arguments and its reply, in the order in which they are made.
\<close>

datatype event =
    DomainListEv "goerror + Domain list"
  | RecordListEv string "goerror + Record list"
  | RecordCreateEv string Record "goerror + int"
  | RecordDeleteEv string int "goerror option"

record 'w state =
  calls :: "event list"
  world :: 'w

definition call_DomainList :: "'w outside \<Rightarrow> 'w state \<Rightarrow> (goerror + Domain list) \<times> 'w state" where
  "call_DomainList ext s =
     (case DomainList ext (world s) of
        (r, w) \<Rightarrow> (r, \<lparr>calls = calls s @ [DomainListEv r], world = w\<rparr>))"

definition call_RecordList :: "'w outside \<Rightarrow> string \<Rightarrow> 'w state \<Rightarrow> (goerror + Record list) \<times> 'w state" where
  "call_RecordList ext zone s =
     (case RecordList ext zone (world s) of
        (r, w) \<Rightarrow> (r, \<lparr>calls = calls s @ [RecordListEv zone r], world = w\<rparr>))"

definition call_RecordCreate :: "'w outside \<Rightarrow> string \<Rightarrow> Record \<Rightarrow> 'w state \<Rightarrow> (goerror + int) \<times> 'w state" where
  "call_RecordCreate ext zone record s =
     (case RecordCreate ext zone record (world s) of
        (r, w) \<Rightarrow> (r, \<lparr>calls = calls s @ [RecordCreateEv zone record r], world = w\<rparr>))"

definition call_RecordDelete :: "'w outside \<Rightarrow> string \<Rightarrow> int \<Rightarrow> 'w state \<Rightarrow> goerror option \<times> 'w state" where
  "call_RecordDelete ext zone recordId s =
     (case RecordDelete ext zone recordId (world s) of
        (r, w) \<Rightarrow> (r, \<lparr>calls = calls s @ [RecordDeleteEv zone recordId r], world = w\<rparr>))"

definition call_FindZoneByFqdn :: "'w outside \<Rightarrow> string \<Rightarrow> 'w state \<Rightarrow> (goerror + string) \<times> 'w state" where
  "call_FindZoneByFqdn ext fqdn s =
     (case FindZoneByFqdn ext fqdn (world s) of
        (r, w) \<Rightarrow> (r, s\<lparr>world := w\<rparr>))"

subsection \<open>Construction\<close>

text \<open>
  \<open>NewDNSProviderConfig\<close>: the configuration is a pointer, \<open>None\<close> is nil.
\<close>

definition NewDNSProviderConfig :: "Config option \<Rightarrow> goerror + DNSProvider" where
  "NewDNSProviderConfig cfg =
     (case cfg of
        None \<Rightarrow> Inl (ErrorString ''qcloud cns: the configuration of the DNS provider is nil'')
      | Some c \<Rightarrow>
          if SecretKey c = [] then Inl (ErrorString ''qcloud cns: credentials missing'')
          else Inr \<lparr>config = Some c, client = Some (cns_New (SecretId c) (SecretKey c))\<rparr>)"

text \<open>
  \<open>NewDNSProvider\<close>. The functions of package env are outside this repository:
  \<open>envGet\<close> stands for \<open>env.Get\<close>, which returns the values of the named variables or
  an error, and \<open>defaultConfig\<close> for the result of \<open>NewDefaultConfig\<close>, which reads the
  TTL and the durations from the environment. Indexing the returned Go map with a key
  that it lacks gives the empty string.
\<close>

definition NewDNSProvider ::
  "(string list \<Rightarrow> goerror + (string \<rightharpoonup> string)) \<Rightarrow> Config \<Rightarrow> goerror + DNSProvider" where
  "NewDNSProvider envGet defaultConfig =
     (case envGet [''QCLOUD_SECRET_ID'', ''QCLOUD_SECRET_KEY''] of
        Inl err \<Rightarrow> Inl (Errorf_w ''qcloud cns: '' err)
      | Inr values \<Rightarrow>
          NewDNSProviderConfig (Some (defaultConfig
            \<lparr>SecretId := (case values ''QCLOUD_SECRET_ID'' of None \<Rightarrow> [] | Some v \<Rightarrow> v),
             SecretKey := (case values ''QCLOUD_SECRET_KEY'' of None \<Rightarrow> [] | Some v \<Rightarrow> v)\<rparr>)))"

subsection \<open>Timeout\<close>

text \<open>\<open>Timeout\<close> reads \<open>d.config.PropagationTimeout\<close> first: it panics when \<open>d.config\<close> is nil.\<close>

definition Timeout :: "DNSProvider \<Rightarrow> 'w state \<Rightarrow> (failure + Duration \<times> Duration) \<times> 'w state" where
  "Timeout d s =
     (case config d of
        None \<Rightarrow> (Inl Panic, s)
      | Some c \<Rightarrow> (Inr (PropagationTimeout c, PollingInterval c), s))"

subsection \<open>getHostedZone\<close>

text \<open>\<open>fmt.Sprintf("%v", n)\<close> for an integer: its decimal digits, after a minus sign when negative.\<close>

fun digits :: "nat \<Rightarrow> string" where
  "digits n =
     (if n < 10 then [''0123456789'' ! n] else digits (n div 10) @ [''0123456789'' ! (n mod 10)])"

definition Sprint_int :: "int \<Rightarrow> string" where
  "Sprint_int n = (if n < 0 then ''-'' @ digits (nat (- n)) else digits (nat n))"

text \<open>
  The loop over the zones: every zone with the wanted name is assigned to \<open>hostedZone\<close>,
  a later one over an earlier one.
\<close>

fun selectZone :: "string \<Rightarrow> Domain list \<Rightarrow> Domain \<Rightarrow> Domain" where
  "selectZone name [] hostedZone = hostedZone"
| "selectZone name (zone # zones) hostedZone =
     selectZone name zones (if Domain_Name zone = name then zone else hostedZone)"

definition getHostedZone :: "'w outside \<Rightarrow> string \<Rightarrow> 'w state \<Rightarrow> (goerror + string \<times> string) \<times> 'w state" where
  "getHostedZone ext domain s =
     (case call_DomainList ext s of
        (Inl err, s1) \<Rightarrow> (Inl (Errorf_v ''qcloud cns: DomainList() API call failed: '' err), s1)
      | (Inr zones, s1) \<Rightarrow>
          (case call_FindZoneByFqdn ext (ToFqdn domain) s1 of
             (Inl err, s2) \<Rightarrow> (Inl err, s2)
           | (Inr authZone, s2) \<Rightarrow>
               (let hostedZone = selectZone (UnFqdn authZone) zones zeroDomain
                in if Domain_Id hostedZone = 0
                   then (Inl (ErrorString (''getHostedZone: zone '' @ authZone
                           @ '' not found in qcloud cns for domain '' @ domain)), s2)
                   else (Inr (Sprint_int (Domain_Id hostedZone), Domain_Name hostedZone), s2))))"

subsection \<open>newTxtRecord and findTxtRecords\<close>

text \<open>The \<open>Line\<close> of a new record is a fixed string of six bytes (two Chinese characters in UTF-8).\<close>

definition defaultLine :: string where
  "defaultLine = [CHR 0xE9, CHR 0xBB, CHR 0x98, CHR 0xE8, CHR 0xAE, CHR 0xA4]"

definition newTxtRecord :: "string \<Rightarrow> string \<Rightarrow> string \<Rightarrow> int \<Rightarrow> Record" where
  "newTxtRecord zone fqdn val ttl =
     (let name = extractRecordName fqdn zone
      in \<lparr>Record_Id = 0, Record_Type = ''TXT'', Record_Name = name, Record_Value = val,
          Record_Line = defaultLine, Record_Ttl = ttl\<rparr>)"

definition findTxtRecords :: "'w outside \<Rightarrow> string \<Rightarrow> string \<Rightarrow> 'w state \<Rightarrow> (goerror + Record list) \<times> 'w state" where
  "findTxtRecords ext domain fqdn s =
     (case getHostedZone ext domain s of
        (Inl err, s1) \<Rightarrow> (Inl err, s1)
      | (Inr (zoneId, zoneName), s1) \<Rightarrow>
          (case call_RecordList ext zoneName s1 of
             (Inl err, s2) \<Rightarrow> (Inl (Errorf_v ''qcloud cns: RecordList() API call has failed: '' err), s2)
           | (Inr result, s2) \<Rightarrow>
               (let recordName = extractRecordName fqdn zoneName
                in (Inr (filter (\<lambda>record. Record_Name record = recordName) result), s2))))"

subsection \<open>Present and CleanUp\<close>

text \<open>
  Both methods start with \<open>if domain[:2] == "*." { domain = domain[2:] }\<close>; the slice
  expression \<open>domain[:2]\<close> panics when the string has fewer than two bytes. What follows
  in each method, with the possibly reassigned \<open>domain\<close>, is \<open>Present_rest\<close> and
  \<open>CleanUp_rest\<close>. \<open>Present\<close> reads \<open>d.config.TTL\<close> once the zone is found, as an argument
  of \<open>newTxtRecord\<close>: there it panics when \<open>d.config\<close> is nil.
\<close>

definition Present_rest :: "'w outside \<Rightarrow> DNSProvider \<Rightarrow> string \<Rightarrow> string \<Rightarrow> string \<Rightarrow> 'w state \<Rightarrow> (failure + unit) \<times> 'w state" where
  "Present_rest ext d domain token keyAuth s =
     (case GetRecord ext domain keyAuth of (fqdn, val) \<Rightarrow>
        (case getHostedZone ext domain s of
           (Inl err, s1) \<Rightarrow> (Inl (Returned err), s1)
         | (Inr (zoneId, zoneName), s1) \<Rightarrow>
             (case config d of
                None \<Rightarrow> (Inl Panic, s1)
              | Some c \<Rightarrow>
                  (let recordAttributes = newTxtRecord zoneName fqdn val (TTL c)
                   in case call_RecordCreate ext zoneName recordAttributes s1 of
                        (Inl err, s2) \<Rightarrow>
                          (Inl (Returned (Errorf_v ''qcloud cns: RecordCreate() API call failed: '' err)), s2)
                      | (Inr recordId, s2) \<Rightarrow> (Inr (), s2)))))"

definition Present :: "'w outside \<Rightarrow> DNSProvider \<Rightarrow> string \<Rightarrow> string \<Rightarrow> string \<Rightarrow> 'w state \<Rightarrow> (failure + unit) \<times> 'w state" where
  "Present ext d domain token keyAuth s =
     (if length domain < 2 then (Inl Panic, s)
      else Present_rest ext d (if take 2 domain = ''*.'' then drop 2 domain else domain) token keyAuth s)"

text \<open>The loop of \<open>CleanUp\<close> over the records found.\<close>

fun deleteRecords :: "'w outside \<Rightarrow> string \<Rightarrow> Record list \<Rightarrow> 'w state \<Rightarrow> (failure + unit) \<times> 'w state" where
  "deleteRecords ext zoneName [] s = (Inr (), s)"
| "deleteRecords ext zoneName (rec # records) s =
     (case call_RecordDelete ext zoneName (Record_Id rec) s of
        (Some err, s1) \<Rightarrow> (Inl (Returned (Errorf_w ''CleanUp(): qcloud cns: RecordDelete err: '' err)), s1)
      | (None, s1) \<Rightarrow> deleteRecords ext zoneName records s1)"

definition CleanUp_rest :: "'w outside \<Rightarrow> DNSProvider \<Rightarrow> string \<Rightarrow> string \<Rightarrow> string \<Rightarrow> 'w state \<Rightarrow> (failure + unit) \<times> 'w state" where
  "CleanUp_rest ext d domain token keyAuth s =
     (case GetRecord ext domain keyAuth of (fqdn, val) \<Rightarrow>
        (case findTxtRecords ext domain fqdn s of
           (Inl err, s1) \<Rightarrow> (Inl (Returned (Errorf_w ''CleanUp(): findTxtRecords err: '' err)), s1)
         | (Inr records, s1) \<Rightarrow>
             (case getHostedZone ext domain s1 of
                (Inl err, s2) \<Rightarrow> (Inl (Returned (Errorf_w ''CleanUp(): getHostedZone err: '' err)), s2)
              | (Inr (zoneId, zoneName), s2) \<Rightarrow> deleteRecords ext zoneName records s2)))"

definition CleanUp :: "'w outside \<Rightarrow> DNSProvider \<Rightarrow> string \<Rightarrow> string \<Rightarrow> string \<Rightarrow> 'w state \<Rightarrow> (failure + unit) \<times> 'w state" where
  "CleanUp ext d domain token keyAuth s =
     (if length domain < 2 then (Inl Panic, s)
      else CleanUp_rest ext d (if take 2 domain = ''*.'' then drop 2 domain else domain) token keyAuth s)"


section \<open>Vocabulary of the properties\<close>

text \<open>The error of a recorded call, if it failed.\<close>

fun failed :: "event \<Rightarrow> goerror option" where
  "failed (DomainListEv r) = (case r of Inl e \<Rightarrow> Some e | Inr zones \<Rightarrow> None)"
| "failed (RecordListEv zone r) = (case r of Inl e \<Rightarrow> Some e | Inr records \<Rightarrow> None)"
| "failed (RecordCreateEv zone record r) = (case r of Inl e \<Rightarrow> Some e | Inr recordId \<Rightarrow> None)"
| "failed (RecordDeleteEv zone recordId r) = r"

text \<open>The successful deletion of a record of a zone, as recorded.\<close>

definition deleteEv :: "string \<Rightarrow> Record \<Rightarrow> event" where
  "deleteEv zoneName rec = RecordDeleteEv zoneName (Record_Id rec) None"

text \<open>
  The four places of the source where the vendor is called: \<open>DomainList\<close> in
  \<open>getHostedZone\<close>, \<open>RecordList\<close> in \<open>findTxtRecords\<close>, \<open>RecordCreate\<close> in \<open>Present\<close>
  and \<open>RecordDelete\<close> in \<open>CleanUp\<close>.
\<close>

datatype site = DomainList_site | RecordList_site | RecordCreate_site | RecordDelete_site

fun site_of :: "event \<Rightarrow> site" where
  "site_of (DomainListEv r) = DomainList_site"
| "site_of (RecordListEv zone r) = RecordList_site"
| "site_of (RecordCreateEv zone record r) = RecordCreate_site"
| "site_of (RecordDeleteEv zone recordId r) = RecordDelete_site"

text \<open>\<open>errors.Unwrap\<close>: the error that an error wraps, if it wraps one.\<close>

fun Unwrap :: "goerror \<Rightarrow> goerror option" where
  "Unwrap (ErrorString msg) = None"
| "Unwrap (WrapError msg err) = Some err"

text \<open>
  The error that \<open>Present\<close> returns when a call of the vendor has failed, by the call:
  the message of the vendor's error behind the contextual message of the call, built
  with \<open>%v\<close>.
\<close>

fun Present_error :: "event \<Rightarrow> goerror option" where
  "Present_error (DomainListEv (Inl e)) =
     Some (Errorf_v ''qcloud cns: DomainList() API call failed: '' e)"
| "Present_error (RecordCreateEv zone record (Inl e)) =
     Some (Errorf_v ''qcloud cns: RecordCreate() API call failed: '' e)"
| "Present_error ev = None"

text \<open>
  The error that \<open>CleanUp\<close> returns when a call of the vendor has failed, by the call
  and by the number \<open>n\<close> of the calls made before it: the first \<open>DomainList\<close> is the one
  of \<open>findTxtRecords\<close>, a later one is the one of \<open>CleanUp\<close> itself. Only the error of
  \<open>RecordDelete\<close> is wrapped with \<open>%w\<close>; the others are formatted with \<open>%v\<close> inside an
  error that \<open>CleanUp\<close> wraps in turn.
\<close>

fun CleanUp_error :: "nat \<Rightarrow> event \<Rightarrow> goerror option" where
  "CleanUp_error n (DomainListEv (Inl e)) =
     Some (Errorf_w
       (if n = 0 then ''CleanUp(): findTxtRecords err: '' else ''CleanUp(): getHostedZone err: '')
       (Errorf_v ''qcloud cns: DomainList() API call failed: '' e))"
| "CleanUp_error n (RecordListEv zone (Inl e)) =
     Some (Errorf_w ''CleanUp(): findTxtRecords err: ''
       (Errorf_v ''qcloud cns: RecordList() API call has failed: '' e))"
| "CleanUp_error n (RecordDeleteEv zone recordId (Some e)) =
     Some (Errorf_w ''CleanUp(): qcloud cns: RecordDelete err: '' e)"
| "CleanUp_error n ev = None"

text \<open>How often a call site has been executed in a list of calls.\<close>

definition executed :: "site \<Rightarrow> event list \<Rightarrow> nat" where
  "executed site evs = count_list (map site_of evs) site"

text \<open>
  The records that the listings in a list of calls have returned under the leaf name of
  the challenge, and the identifiers passed to \<open>RecordDelete\<close>, both in the order of the calls.
\<close>

fun found_records :: "string \<Rightarrow> event list \<Rightarrow> Record list" where
  "found_records fqdn [] = []"
| "found_records fqdn (RecordListEv zone (Inr result) # evs) =
     filter (\<lambda>record. Record_Name record = extractRecordName fqdn zone) result
       @ found_records fqdn evs"
| "found_records fqdn (ev # evs) = found_records fqdn evs"

fun deleted :: "event list \<Rightarrow> int list" where
  "deleted [] = []"
| "deleted (RecordDeleteEv zone recordId r # evs) = recordId # deleted evs"
| "deleted (ev # evs) = deleted evs"

text \<open>
  \<open>Present_no_retry new r\<close>, for the calls \<open>new\<close> that \<open>Present\<close> has made and its result
  \<open>r\<close>: every call but the last has succeeded; if the last call has failed, \<open>Present\<close> has
  returned the error that belongs to that call; and \<open>DomainList\<close> and \<open>RecordCreate\<close> have
  been executed at most once each, the other two call sites not at all.
\<close>

definition Present_no_retry :: "event list \<Rightarrow> (failure + unit) \<Rightarrow> bool" where
  "Present_no_retry new r \<longleftrightarrow>
     (\<forall>ev \<in> set (butlast new). failed ev = None)
     \<and> (new \<noteq> [] \<and> failed (last new) \<noteq> None \<longrightarrow>
           map_option (\<lambda>err. Inl (Returned err)) (Present_error (last new)) = Some r)
     \<and> executed DomainList_site new \<le> 1 \<and> executed RecordCreate_site new \<le> 1
     \<and> executed RecordList_site new = 0 \<and> executed RecordDelete_site new = 0"

text \<open>
  \<open>CleanUp_no_retry fqdn new r\<close>, for \<open>CleanUp\<close> likewise: \<open>RecordList\<close> has been executed
  at most once, \<open>DomainList\<close> at most twice, \<open>RecordCreate\<close> not at all, and \<open>RecordDelete\<close>
  at most once for each record found, in the order in which the records were listed.
\<close>

definition CleanUp_no_retry :: "string \<Rightarrow> event list \<Rightarrow> (failure + unit) \<Rightarrow> bool" where
  "CleanUp_no_retry fqdn new r \<longleftrightarrow>
     (\<forall>ev \<in> set (butlast new). failed ev = None)
     \<and> (new \<noteq> [] \<and> failed (last new) \<noteq> None \<longrightarrow>
           map_option (\<lambda>err. Inl (Returned err)) (CleanUp_error (length new - 1) (last new)) = Some r)
     \<and> executed DomainList_site new \<le> 2 \<and> executed RecordList_site new \<le> 1
     \<and> executed RecordCreate_site new = 0
     \<and> prefix (deleted new) (map Record_Id (found_records fqdn new))"

text \<open>
  The order of the calls in the claim's words: first the listing of the domains, then
  the listing of the records, then the creation or the deletions. A list of calls is in
  that order when the phases of its calls never decrease.
\<close>

fun phase :: "event \<Rightarrow> nat" where
  "phase (DomainListEv r) = 0"
| "phase (RecordListEv zone r) = 1"
| "phase (RecordCreateEv zone record r) = 2"
| "phase (RecordDeleteEv zone recordId r) = 2"

text \<open>
  The zone that \<open>getHostedZone\<close> matches among the listed zones for an authoritative zone:
  the last of the zones with the un-FQDN'd name, unless its \<open>Id\<close> is 0.
\<close>

definition matchedZone :: "Domain list \<Rightarrow> string \<Rightarrow> Domain option" where
  "matchedZone zones authZone =
     (let matching = filter (\<lambda>zone. Domain_Name zone = UnFqdn authZone) zones
      in if matching \<noteq> [] \<and> Domain_Id (last matching) \<noteq> 0 then Some (last matching) else None)"

text \<open>
  The calls of \<open>Present\<close>, in their order: none; or \<open>DomainList\<close> alone; or a successful
  \<open>DomainList\<close> and then one \<open>RecordCreate\<close>.
\<close>

fun Present_order :: "event list \<Rightarrow> bool" where
  "Present_order [] = True"
| "Present_order [DomainListEv r] = True"
| "Present_order [DomainListEv (Inr zones), RecordCreateEv zone record r] = True"
| "Present_order evs = False"

text \<open>
  The calls of \<open>CleanUp\<close>, in their order: none; or \<open>DomainList\<close> alone; or a successful
  \<open>DomainList\<close> and then \<open>RecordList\<close>; or a successful \<open>DomainList\<close>, a successful
  \<open>RecordList\<close>, a second \<open>DomainList\<close> and then, if that succeeded too, only
  \<open>RecordDelete\<close> calls.
\<close>

fun is_delete :: "event \<Rightarrow> bool" where
  "is_delete (RecordDeleteEv zone recordId r) = True"
| "is_delete ev = False"

fun CleanUp_order :: "event list \<Rightarrow> bool" where
  "CleanUp_order [] = True"
| "CleanUp_order [DomainListEv r] = True"
| "CleanUp_order [DomainListEv (Inr zones), RecordListEv zone r] = True"
| "CleanUp_order (DomainListEv (Inr zones) # RecordListEv zone (Inr result) # DomainListEv r # evs) =
     (if isl r then evs = [] else list_all is_delete evs)"
| "CleanUp_order evs = False"

section \<open>A small outside world for concrete runs\<close>

text \<open>
  An account with the given zones, whose DNS zone of every name is \<open>example.com.\<close>, and
  whose state is the list of the records of the zone \<open>example.com\<close>. The vendor refuses
  to delete the records whose identifier is in \<open>locked\<close>. The key authorization stands
  for its own digest.
\<close>

definition demo_GetRecord :: "string \<Rightarrow> string \<Rightarrow> string \<times> string" where
  "demo_GetRecord domain keyAuth = (''_acme-challenge.'' @ domain @ ''.'', keyAuth)"

definition demo_outside :: "Domain list \<Rightarrow> int list \<Rightarrow> (Record list) outside" where
  "demo_outside zones locked =
     \<lparr>DomainList = (\<lambda>w. (Inr zones, w)),
      RecordList = (\<lambda>zone w.
         (if zone = ''example.com'' then Inr w else Inl (ErrorString ''no such domain''), w)),
      RecordCreate = (\<lambda>zone record w.
         (Inr (1 + int (length w)), w @ [record\<lparr>Record_Id := 1 + int (length w)\<rparr>])),
      RecordDelete = (\<lambda>zone recordId w.
         if recordId \<in> set locked then (Some (ErrorString ''record is locked''), w)
         else (None, filter (\<lambda>r. Record_Id r \<noteq> recordId) w)),
      FindZoneByFqdn = (\<lambda>fqdn w. (Inr ''example.com.'', w)),
      GetRecord = demo_GetRecord\<rparr>"

definition demo_zones :: "Domain list" where
  "demo_zones =
     [\<lparr>Domain_Id = 11, Domain_Name = ''example.org''\<rparr>,
      \<lparr>Domain_Id = 12, Domain_Name = ''example.com''\<rparr>]"

definition demo_records :: "Record list" where
  "demo_records =
     [\<lparr>Record_Id = 7, Record_Type = ''TXT'', Record_Name = ''_acme-challenge'',
       Record_Value = ''old'', Record_Line = defaultLine, Record_Ttl = 600\<rparr>,
      \<lparr>Record_Id = 8, Record_Type = ''CNAME'', Record_Name = ''_acme-challenge'',
       Record_Value = ''v.acme.example.net.'', Record_Line = defaultLine, Record_Ttl = 600\<rparr>,
      \<lparr>Record_Id = 9, Record_Type = ''A'', Record_Name = ''www'',
       Record_Value = ''192.0.2.1'', Record_Line = defaultLine, Record_Ttl = 600\<rparr>]"

definition demo_config :: Config where
  "demo_config =
     \<lparr>SecretId = ''id'', SecretKey = ''key'', TTL = 600,
      PropagationTimeout = 60000000000, PollingInterval = 2000000000, HTTPClient = None\<rparr>"

definition demo_provider :: DNSProvider where
  "demo_provider = \<lparr>config = Some demo_config, client = Some (cns_New ''id'' ''key'')\<rparr>"

definition demo_state :: "(Record list) state" where
  "demo_state = \<lparr>calls = [], world = demo_records\<rparr>"

text \<open>Two accounts in which the zone \<open>example.com\<close> is listed twice.\<close>

definition demo_zones_twice :: "Domain list" where
  "demo_zones_twice =
     [\<lparr>Domain_Id = 12, Domain_Name = ''example.com''\<rparr>,
      \<lparr>Domain_Id = 13, Domain_Name = ''example.com''\<rparr>]"

definition demo_zones_zero :: "Domain list" where
  "demo_zones_zero =
     [\<lparr>Domain_Id = 12, Domain_Name = ''example.com''\<rparr>,
      \<lparr>Domain_Id = 0, Domain_Name = ''example.com''\<rparr>]"

text \<open>The same account when the vendor cannot be reached: no call succeeds.\<close>

definition demo_unreachable :: "(Record list) outside" where
  "demo_unreachable =
     \<lparr>DomainList = (\<lambda>w. (Inl (ErrorString ''connection refused''), w)),
      RecordList = (\<lambda>zone w. (Inl (ErrorString ''connection refused''), w)),
      RecordCreate = (\<lambda>zone record w. (Inl (ErrorString ''connection refused''), w)),
      RecordDelete = (\<lambda>zone recordId w. (Some (ErrorString ''connection refused''), w)),
      FindZoneByFqdn = (\<lambda>fqdn w. (Inr ''example.com.'', w)),
      GetRecord = demo_GetRecord\<rparr>"

section \<open>Auxiliary facts\<close>

lemmas demo_defs = demo_outside_def demo_zones_def demo_records_def demo_provider_def
  demo_config_def demo_state_def demo_GetRecord_def

lemmas model_defs = CleanUp_def CleanUp_rest_def Present_def Present_rest_def
  findTxtRecords_def getHostedZone_def call_DomainList_def call_RecordList_def
  call_RecordCreate_def call_RecordDelete_def call_FindZoneByFqdn_def newTxtRecord_def
  extractRecordName_def UnFqdn_def ToFqdn_def zeroDomain_def

lemma strings_Index_bounds:
  "- 1 \<le> strings_Index s substr \<and> strings_Index s substr \<le> int (length s)"
  by (induction s) (auto simp: Let_def)

lemma strings_Index_none:
  "strings_Index s substr = - 1 \<longleftrightarrow> (\<forall>j \<le> length s. \<not> prefix substr (drop j s))"
proof (induction s)
  case Nil
  then show ?case by auto
next
  case (Cons c s)
  have split: "(\<forall>j \<le> length (c # s). \<not> prefix substr (drop j (c # s)))
      \<longleftrightarrow> \<not> prefix substr (c # s) \<and> (\<forall>j \<le> length s. \<not> prefix substr (drop j s))"
  proof
    assume a: "\<forall>j \<le> length (c # s). \<not> prefix substr (drop j (c # s))"
    from a [rule_format, of 0] have "\<not> prefix substr (c # s)" by simp
    moreover have "\<forall>j \<le> length s. \<not> prefix substr (drop j s)"
    proof (intro allI impI)
      fix j assume "j \<le> length s"
      with a [rule_format, of "Suc j"] show "\<not> prefix substr (drop j s)" by simp
    qed
    ultimately show "\<not> prefix substr (c # s) \<and> (\<forall>j \<le> length s. \<not> prefix substr (drop j s))" ..
  next
    assume b: "\<not> prefix substr (c # s) \<and> (\<forall>j \<le> length s. \<not> prefix substr (drop j s))"
    show "\<forall>j \<le> length (c # s). \<not> prefix substr (drop j (c # s))"
    proof (intro allI impI)
      fix j assume "j \<le> length (c # s)"
      with b show "\<not> prefix substr (drop j (c # s))" by (cases j) auto
    qed
  qed
  from strings_Index_bounds [of s substr] have "strings_Index s substr + 1 \<noteq> - 1" by arith
  with Cons.IH split show ?case by (auto simp: Let_def)
qed

lemma strings_Index_first:
  assumes "prefix substr (drop i s)" and "i \<le> length s"
    and "\<forall>j < i. \<not> prefix substr (drop j s)"
  shows "strings_Index s substr = int i"
  using assms
proof (induction s arbitrary: i)
  case Nil
  then show ?case by simp
next
  case (Cons c s)
  show ?case
  proof (cases i)
    case 0
    with Cons.prems show ?thesis by simp
  next
    case (Suc k)
    with Cons.prems have np: "\<not> prefix substr (c # s)" by auto
    have "\<forall>j < k. \<not> prefix substr (drop j s)"
    proof (intro allI impI)
      fix j assume "j < k"
      with Suc Cons.prems(3) [rule_format, of "Suc j"] show "\<not> prefix substr (drop j s)" by simp
    qed
    with Cons.IH [of k] Cons.prems Suc have "strings_Index s substr = int k" by simp
    with np Suc show ?thesis by (simp add: Let_def)
  qed
qed

text \<open>
  Where the dot and the zone do not occur in the name before its end, \<open>extractRecordName\<close>
  removes the zone suffix.
\<close>

lemma extractRecordName_strips_suffix:
  assumes "\<forall>j. j + length (''.'' @ zone) < length (UnFqdn fqdn) \<longrightarrow>
             \<not> prefix (''.'' @ zone) (drop j (UnFqdn fqdn))"
  shows "extractRecordName fqdn zone = stripZoneSuffix fqdn zone"
proof -
  let ?name = "UnFqdn fqdn" and ?sub = "''.'' @ zone"
  show ?thesis
  proof (cases "suffix ?sub ?name")
    case True
    then obtain pre where name: "?name = pre @ ?sub" by (auto simp: suffix_def)
    let ?i = "length ?name - length ?sub"
    from name have i: "?i = length pre" by simp
    from name i have "drop ?i ?name = ?sub" by simp
    then have p: "prefix ?sub (drop ?i ?name)" by simp
    have "\<forall>j < ?i. \<not> prefix ?sub (drop j ?name)"
      using assms by auto
    with p have "strings_Index ?name ?sub = int ?i"
      by (intro strings_Index_first) simp_all
    with True show ?thesis
      by (simp add: extractRecordName_def stripZoneSuffix_def Let_def)
  next
    case False
    have "\<forall>j \<le> length ?name. \<not> prefix ?sub (drop j ?name)"
    proof (intro allI impI notI)
      fix j assume j: "j \<le> length ?name" and p: "prefix ?sub (drop j ?name)"
      from p have "length ?sub \<le> length ?name - j"
        by (auto dest: prefix_length_le)
      with assms [rule_format, of j] p have "j + length ?sub = length ?name"
        by (cases "j + length ?sub < length ?name") auto
      then have "length (drop j ?name) = length ?sub" by simp
      with p have "drop j ?name = ?sub"
        by (auto simp: prefix_def simp del: length_drop)
      then have "?name = take j ?name @ ?sub"
        by (metis append_take_drop_id)
      then have "suffix ?sub ?name" by (metis suffixI)
      with False show False by simp
    qed
    then have "strings_Index ?name ?sub = - 1"
      by (simp only: strings_Index_none)
    with False show ?thesis
      by (simp add: extractRecordName_def stripZoneSuffix_def Let_def)
  qed
qed

lemma selectZone_filter:
  "selectZone name zones hz =
     (if filter (\<lambda>z. Domain_Name z = name) zones = [] then hz
      else last (filter (\<lambda>z. Domain_Name z = name) zones))"
  by (induction zones arbitrary: hz) auto

lemma selectZone_mem:
  "selectZone name zones hz = hz \<or> (selectZone name zones hz \<in> set zones \<and> Domain_Name (selectZone name zones hz) = name)"
proof (cases "filter (\<lambda>z. Domain_Name z = name) zones = []")
  case True
  then show ?thesis by (simp add: selectZone_filter)
next
  case False
  then have "last (filter (\<lambda>z. Domain_Name z = name) zones) \<in> set (filter (\<lambda>z. Domain_Name z = name) zones)"
    by (rule last_in_set)
  with False show ?thesis by (simp add: selectZone_filter)
qed

lemma getHostedZone_cases:
  assumes "getHostedZone ext domain s = (r, s')"
  shows "(\<exists>e. calls s' = calls s @ [DomainListEv (Inl e)]
             \<and> r = Inl (Errorf_v ''qcloud cns: DomainList() API call failed: '' e))
       \<or> (\<exists>zones. calls s' = calls s @ [DomainListEv (Inr zones)]
             \<and> ((\<exists>err. r = Inl err)
                \<or> (\<exists>z \<in> set zones. Domain_Id z \<noteq> 0 \<and> r = Inr (Sprint_int (Domain_Id z), Domain_Name z))))"
proof (cases "DomainList ext (world s)")
  case (Pair r1 w1)
  show ?thesis
  proof (cases r1)
    case (Inl e)
    with Pair assms show ?thesis
      by (auto simp: getHostedZone_def call_DomainList_def)
  next
    case (Inr zones)
    obtain r2 w2 where fz: "FindZoneByFqdn ext (ToFqdn domain) w1 = (r2, w2)"
      by (cases "FindZoneByFqdn ext (ToFqdn domain) w1")
    show ?thesis
    proof (cases r2)
      case (Inl err)
      with Pair Inr fz assms show ?thesis
        by (auto simp: getHostedZone_def call_DomainList_def call_FindZoneByFqdn_def)
    next
      case authZone: (Inr authZone)
      let ?hz = "selectZone (UnFqdn authZone) zones zeroDomain"
      show ?thesis
      proof (cases "Domain_Id ?hz = 0")
        case True
        with Pair Inr fz authZone assms show ?thesis
          by (auto simp: getHostedZone_def call_DomainList_def call_FindZoneByFqdn_def)
      next
        case False
        then have "?hz \<noteq> zeroDomain" by (auto simp: zeroDomain_def)
        with selectZone_mem [of "UnFqdn authZone" zones zeroDomain] have "?hz \<in> set zones" by simp
        with False Pair Inr fz authZone assms show ?thesis
          by (auto simp: getHostedZone_def call_DomainList_def call_FindZoneByFqdn_def Let_def)
      qed
    qed
  qed
qed


lemma getHostedZone_eval:
  assumes "DomainList ext (world s) = (Inr zones, w1)"
    and "FindZoneByFqdn ext (ToFqdn domain) w1 = (Inr authZone, w2)"
  shows "getHostedZone ext domain s =
     (let matching = filter (\<lambda>zone. Domain_Name zone = UnFqdn authZone) zones;
          s2 = \<lparr>calls = calls s @ [DomainListEv (Inr zones)], world = w2\<rparr>
      in if matching \<noteq> [] \<and> Domain_Id (last matching) \<noteq> 0
         then (Inr (Sprint_int (Domain_Id (last matching)), Domain_Name (last matching)), s2)
         else (Inl (ErrorString (''getHostedZone: zone '' @ authZone
                 @ '' not found in qcloud cns for domain '' @ domain)), s2))"
  using assms
  by (simp add: getHostedZone_def call_DomainList_def call_FindZoneByFqdn_def Let_def
      selectZone_filter zeroDomain_def)

lemma getHostedZone_Inr:
  assumes "getHostedZone ext domain s = (Inr (zoneId, zoneName), s')"
  shows "\<exists>zones w1 authZone w2 zone.
           DomainList ext (world s) = (Inr zones, w1)
           \<and> FindZoneByFqdn ext (ToFqdn domain) w1 = (Inr authZone, w2)
           \<and> matchedZone zones authZone = Some zone
           \<and> zoneName = Domain_Name zone \<and> zoneId = Sprint_int (Domain_Id zone)
           \<and> s' = \<lparr>calls = calls s @ [DomainListEv (Inr zones)], world = w2\<rparr>"
proof -
  obtain r1 w1 where dl: "DomainList ext (world s) = (r1, w1)"
    by (cases "DomainList ext (world s)")
  show ?thesis
  proof (cases r1)
    case (Inl e)
    with dl assms show ?thesis
      by (simp add: getHostedZone_def call_DomainList_def)
  next
    case (Inr zones)
    obtain r2 w2 where fz: "FindZoneByFqdn ext (ToFqdn domain) w1 = (r2, w2)"
      by (cases "FindZoneByFqdn ext (ToFqdn domain) w1")
    show ?thesis
    proof (cases r2)
      case (Inl err)
      with dl Inr fz assms show ?thesis
        by (simp add: getHostedZone_def call_DomainList_def call_FindZoneByFqdn_def)
    next
      case authZone: (Inr authZone)
      from getHostedZone_eval [OF dl [unfolded Inr] fz [unfolded authZone]] assms
      have "matchedZone zones authZone \<noteq> None
          \<and> zoneName = Domain_Name (the (matchedZone zones authZone))
          \<and> zoneId = Sprint_int (Domain_Id (the (matchedZone zones authZone)))
          \<and> s' = \<lparr>calls = calls s @ [DomainListEv (Inr zones)], world = w2\<rparr>"
        by (auto simp: matchedZone_def Let_def split: if_splits)
      with dl Inr fz authZone show ?thesis by auto
    qed
  qed
qed

lemma Present_rest_cases:
  assumes "Present_rest ext d domain token keyAuth s = (r, s')"
  shows "(\<exists>e. calls s' = calls s @ [DomainListEv (Inl e)]
             \<and> r = Inl (Returned (Errorf_v ''qcloud cns: DomainList() API call failed: '' e)))
       \<or> (\<exists>zones f. calls s' = calls s @ [DomainListEv (Inr zones)] \<and> r = Inl f)
       \<or> (\<exists>zones w1 authZone w2 zone c cr.
             DomainList ext (world s) = (Inr zones, w1)
             \<and> FindZoneByFqdn ext (ToFqdn domain) w1 = (Inr authZone, w2)
             \<and> matchedZone zones authZone = Some zone \<and> config d = Some c
             \<and> calls s' = calls s @ [DomainListEv (Inr zones),
                  RecordCreateEv (Domain_Name zone)
                    (newTxtRecord (Domain_Name zone) (fst (GetRecord ext domain keyAuth))
                       (snd (GetRecord ext domain keyAuth)) (TTL c)) cr]
             \<and> r = (case cr of
                      Inl e \<Rightarrow> Inl (Returned (Errorf_v ''qcloud cns: RecordCreate() API call failed: '' e))
                    | Inr recordId \<Rightarrow> Inr ()))"
    (is "?A \<or> ?B \<or> ?C")
proof -
  obtain r1 s1 where hz: "getHostedZone ext domain s = (r1, s1)"
    by (cases "getHostedZone ext domain s")
  obtain fqdn val where gr: "GetRecord ext domain keyAuth = (fqdn, val)"
    by (cases "GetRecord ext domain keyAuth")
  show ?thesis
  proof (cases r1)
    case (Inl err)
    with assms hz gr have r: "r = Inl (Returned err)" and s': "s' = s1"
      by (auto simp: Present_rest_def)
    from getHostedZone_cases [OF hz] Inl r s' have "?A \<or> ?B"
      by auto
    then show ?thesis by blast
  next
    case (Inr p)
    obtain zoneId zoneName where p: "p = (zoneId, zoneName)" by (cases p)
    from getHostedZone_Inr [OF hz [unfolded Inr p]]
    obtain zones w1 authZone w2 zone where
      dl: "DomainList ext (world s) = (Inr zones, w1)"
      and fz: "FindZoneByFqdn ext (ToFqdn domain) w1 = (Inr authZone, w2)"
      and mz: "matchedZone zones authZone = Some zone"
      and zn: "zoneName = Domain_Name zone"
      and s1: "s1 = \<lparr>calls = calls s @ [DomainListEv (Inr zones)], world = w2\<rparr>"
      by blast
    show ?thesis
    proof (cases "config d")
      case None
      with assms hz gr Inr p s1 have ?B
        by (auto simp: Present_rest_def)
      then show ?thesis by blast
    next
      case (Some c)
      obtain cr w3 where rc: "RecordCreate ext (Domain_Name zone)
          (newTxtRecord (Domain_Name zone) fqdn val (TTL c)) w2 = (cr, w3)"
        by (cases "RecordCreate ext (Domain_Name zone)
          (newTxtRecord (Domain_Name zone) fqdn val (TTL c)) w2")
      from assms hz gr Inr p s1 zn Some rc
      have "calls s' = calls s @ [DomainListEv (Inr zones),
                  RecordCreateEv (Domain_Name zone)
                    (newTxtRecord (Domain_Name zone) fqdn val (TTL c)) cr]
          \<and> r = (case cr of
                   Inl e \<Rightarrow> Inl (Returned (Errorf_v ''qcloud cns: RecordCreate() API call failed: '' e))
                 | Inr recordId \<Rightarrow> Inr ())"
        by (auto simp: Present_rest_def call_RecordCreate_def Let_def split: sum.splits)
      with dl fz mz Some gr have ?C by auto
      then show ?thesis by blast
    qed
  qed
qed

text \<open>\<open>Present\<close> and \<open>CleanUp\<close> call the vendor once they are past the test of the domain.\<close>

lemma Present_rest_calls: "calls (snd (Present_rest ext d domain token keyAuth s)) \<noteq> calls s"
proof -
  obtain r s' where run: "Present_rest ext d domain token keyAuth s = (r, s')"
    by (cases "Present_rest ext d domain token keyAuth s")
  from Present_rest_cases [OF run] have "calls s' \<noteq> calls s"
    by (elim disjE exE conjE) simp_all
  with run show ?thesis by simp
qed

lemma deleteRecords_cases:
  assumes "deleteRecords ext zoneName records s = (r, s')"
  shows "(r = Inr () \<and> calls s' = calls s @ map (deleteEv zoneName) records)
       \<or> (\<exists>pre rec e. prefix (pre @ [rec]) records
             \<and> calls s' = calls s @ map (deleteEv zoneName) pre
                            @ [RecordDeleteEv zoneName (Record_Id rec) (Some e)]
             \<and> r = Inl (Returned (Errorf_w ''CleanUp(): qcloud cns: RecordDelete err: '' e)))"
  using assms
proof (induction records arbitrary: s)
  case Nil
  then show ?case by simp
next
  case (Cons rec records)
  obtain r1 w1 where rd: "RecordDelete ext zoneName (Record_Id rec) (world s) = (r1, w1)"
    by (cases "RecordDelete ext zoneName (Record_Id rec) (world s)")
  show ?case
  proof (cases r1)
    case (Some e)
    with rd Cons.prems
    have "prefix ([] @ [rec]) (rec # records)
        \<and> calls s' = calls s @ map (deleteEv zoneName) [] @ [RecordDeleteEv zoneName (Record_Id rec) (Some e)]
        \<and> r = Inl (Returned (Errorf_w ''CleanUp(): qcloud cns: RecordDelete err: '' e))"
      by (auto simp: call_RecordDelete_def)
    then show ?thesis by blast
  next
    case None
    let ?s1 = "\<lparr>calls = calls s @ [RecordDeleteEv zoneName (Record_Id rec) None], world = w1\<rparr>"
    from None rd Cons.prems have "deleteRecords ext zoneName records ?s1 = (r, s')"
      by (simp add: call_RecordDelete_def)
    from Cons.IH [OF this] show ?thesis
    proof (elim disjE exE conjE)
      assume "r = Inr ()" "calls s' = calls ?s1 @ map (deleteEv zoneName) records"
      then show ?thesis by (simp add: deleteEv_def)
    next
      fix pre rec' e
      assume p: "prefix (pre @ [rec']) records"
        and c: "calls s' = calls ?s1 @ map (deleteEv zoneName) pre
                            @ [RecordDeleteEv zoneName (Record_Id rec') (Some e)]"
        and r: "r = Inl (Returned (Errorf_w ''CleanUp(): qcloud cns: RecordDelete err: '' e))"
      from p c r have "prefix ((rec # pre) @ [rec']) (rec # records)
        \<and> calls s' = calls s @ map (deleteEv zoneName) (rec # pre)
                            @ [RecordDeleteEv zoneName (Record_Id rec') (Some e)]
        \<and> r = Inl (Returned (Errorf_w ''CleanUp(): qcloud cns: RecordDelete err: '' e))"
        by (simp add: deleteEv_def)
      then show ?thesis by blast
    qed
  qed
qed


lemma findTxtRecords_cases:
  assumes "findTxtRecords ext domain fqdn s = (r, s')"
  shows "(\<exists>e. calls s' = calls s @ [DomainListEv (Inl e)]
             \<and> r = Inl (Errorf_v ''qcloud cns: DomainList() API call failed: '' e))
       \<or> (\<exists>zones err. calls s' = calls s @ [DomainListEv (Inr zones)] \<and> r = Inl err)
       \<or> (\<exists>zones z e. z \<in> set zones \<and> Domain_Id z \<noteq> 0
             \<and> calls s' = calls s @ [DomainListEv (Inr zones), RecordListEv (Domain_Name z) (Inl e)]
             \<and> r = Inl (Errorf_v ''qcloud cns: RecordList() API call has failed: '' e))
       \<or> (\<exists>zones z result. z \<in> set zones \<and> Domain_Id z \<noteq> 0
             \<and> calls s' = calls s @ [DomainListEv (Inr zones), RecordListEv (Domain_Name z) (Inr result)]
             \<and> r = Inr (filter (\<lambda>record. Record_Name record = extractRecordName fqdn (Domain_Name z)) result))"
proof -
  obtain r1 s1 where hz: "getHostedZone ext domain s = (r1, s1)"
    by (cases "getHostedZone ext domain s")
  from getHostedZone_cases [OF hz] show ?thesis
  proof (elim disjE exE conjE bexE)
    fix e
    assume "calls s1 = calls s @ [DomainListEv (Inl e)]"
      and "r1 = Inl (Errorf_v ''qcloud cns: DomainList() API call failed: '' e)"
    with assms hz show ?thesis
      by (auto simp: findTxtRecords_def)
  next
    fix zones err
    assume "calls s1 = calls s @ [DomainListEv (Inr zones)]" and "r1 = Inl err"
    with assms hz show ?thesis
      by (auto simp: findTxtRecords_def)
  next
    fix zones z
    assume c: "calls s1 = calls s @ [DomainListEv (Inr zones)]"
      and z: "z \<in> set zones" "Domain_Id z \<noteq> 0"
      and r1: "r1 = Inr (Sprint_int (Domain_Id z), Domain_Name z)"
    obtain lr w2 where rl: "RecordList ext (Domain_Name z) (world s1) = (lr, w2)"
      by (cases "RecordList ext (Domain_Name z) (world s1)")
    show ?thesis
    proof (cases lr)
      case (Inl e)
      with assms hz r1 rl c
      have "calls s' = calls s @ [DomainListEv (Inr zones), RecordListEv (Domain_Name z) (Inl e)]
             \<and> r = Inl (Errorf_v ''qcloud cns: RecordList() API call has failed: '' e)"
        by (auto simp: findTxtRecords_def call_RecordList_def)
      with z show ?thesis by blast
    next
      case (Inr result)
      with assms hz r1 rl c
      have "calls s' = calls s @ [DomainListEv (Inr zones), RecordListEv (Domain_Name z) (Inr result)]
             \<and> r = Inr (filter (\<lambda>record. Record_Name record = extractRecordName fqdn (Domain_Name z)) result)"
        by (auto simp: findTxtRecords_def call_RecordList_def Let_def)
      with z show ?thesis by blast
    qed
  qed
qed

text \<open>The error that \<open>CleanUp\<close> returns when \<open>findTxtRecords\<close> fails with \<open>err\<close>.\<close>

lemma CleanUp_rest_find_failed:
  assumes "findTxtRecords ext domain (fst (GetRecord ext domain keyAuth)) s = (Inl err, s1)"
  shows "CleanUp_rest ext d domain token keyAuth s
           = (Inl (Returned (Errorf_w ''CleanUp(): findTxtRecords err: '' err)), s1)"
  using assms by (cases "GetRecord ext domain keyAuth") (simp add: CleanUp_rest_def)

lemma CleanUp_rest_found:
  assumes "findTxtRecords ext domain (fst (GetRecord ext domain keyAuth)) s = (Inr records, s1)"
  shows "CleanUp_rest ext d domain token keyAuth s
           = (case getHostedZone ext domain s1 of
                (Inl err, s2) \<Rightarrow> (Inl (Returned (Errorf_w ''CleanUp(): getHostedZone err: '' err)), s2)
              | (Inr (zoneId, zoneName), s2) \<Rightarrow> deleteRecords ext zoneName records s2)"
  using assms by (cases "GetRecord ext domain keyAuth") (simp add: CleanUp_rest_def)


lemma CleanUp_rest_cases:
  assumes "CleanUp_rest ext d domain token keyAuth s = (r, s')"
  shows "(\<exists>e. calls s' = calls s @ [DomainListEv (Inl e)]
             \<and> r = Inl (Returned (Errorf_w ''CleanUp(): findTxtRecords err: ''
                     (Errorf_v ''qcloud cns: DomainList() API call failed: '' e))))
       \<or> (\<exists>zones err. calls s' = calls s @ [DomainListEv (Inr zones)] \<and> r = Inl (Returned err))
       \<or> (\<exists>zones z e. z \<in> set zones \<and> Domain_Id z \<noteq> 0
             \<and> calls s' = calls s @ [DomainListEv (Inr zones), RecordListEv (Domain_Name z) (Inl e)]
             \<and> r = Inl (Returned (Errorf_w ''CleanUp(): findTxtRecords err: ''
                     (Errorf_v ''qcloud cns: RecordList() API call has failed: '' e))))
       \<or> (\<exists>zones z result e. z \<in> set zones \<and> Domain_Id z \<noteq> 0
             \<and> calls s' = calls s @ [DomainListEv (Inr zones), RecordListEv (Domain_Name z) (Inr result),
                                      DomainListEv (Inl e)]
             \<and> r = Inl (Returned (Errorf_w ''CleanUp(): getHostedZone err: ''
                     (Errorf_v ''qcloud cns: DomainList() API call failed: '' e))))
       \<or> (\<exists>zones z result zones2 err. z \<in> set zones \<and> Domain_Id z \<noteq> 0
             \<and> calls s' = calls s @ [DomainListEv (Inr zones), RecordListEv (Domain_Name z) (Inr result),
                                      DomainListEv (Inr zones2)]
             \<and> r = Inl (Returned err))
       \<or> (\<exists>zones z result zones2 z2 tail. z \<in> set zones \<and> Domain_Id z \<noteq> 0
             \<and> z2 \<in> set zones2 \<and> Domain_Id z2 \<noteq> 0
             \<and> calls s' = calls s @ [DomainListEv (Inr zones), RecordListEv (Domain_Name z) (Inr result),
                                      DomainListEv (Inr zones2)] @ tail
             \<and> ((r = Inr () \<and> tail = map (deleteEv (Domain_Name z2))
                     (filter (\<lambda>record. Record_Name record
                        = extractRecordName (fst (GetRecord ext domain keyAuth)) (Domain_Name z)) result))
                \<or> (\<exists>pre rec e. prefix (pre @ [rec])
                     (filter (\<lambda>record. Record_Name record
                        = extractRecordName (fst (GetRecord ext domain keyAuth)) (Domain_Name z)) result)
                    \<and> tail = map (deleteEv (Domain_Name z2)) pre
                               @ [RecordDeleteEv (Domain_Name z2) (Record_Id rec) (Some e)]
                    \<and> r = Inl (Returned (Errorf_w ''CleanUp(): qcloud cns: RecordDelete err: '' e)))))"
    (is "?A \<or> ?B \<or> ?C \<or> ?D \<or> ?E \<or> ?F")
proof -
  let ?fqdn = "fst (GetRecord ext domain keyAuth)"
  obtain r1 s1 where ft: "findTxtRecords ext domain ?fqdn s = (r1, s1)"
    by (cases "findTxtRecords ext domain ?fqdn s")
  from findTxtRecords_cases [OF ft] show ?thesis
  proof (elim disjE exE conjE)
    fix e
    assume "calls s1 = calls s @ [DomainListEv (Inl e)]"
      and r1: "r1 = Inl (Errorf_v ''qcloud cns: DomainList() API call failed: '' e)"
    with assms CleanUp_rest_find_failed [OF ft [unfolded r1], of d token] have ?A by auto
    then show ?thesis by blast
  next
    fix zones err
    assume "calls s1 = calls s @ [DomainListEv (Inr zones)]" and r1: "r1 = Inl err"
    with assms CleanUp_rest_find_failed [OF ft [unfolded r1], of d token] have ?B by auto
    then show ?thesis by blast
  next
    fix zones :: "Domain list" and z :: Domain and e
    assume "z \<in> set zones" "Domain_Id z \<noteq> 0"
      and "calls s1 = calls s @ [DomainListEv (Inr zones), RecordListEv (Domain_Name z) (Inl e)]"
      and r1: "r1 = Inl (Errorf_v ''qcloud cns: RecordList() API call has failed: '' e)"
    with assms CleanUp_rest_find_failed [OF ft [unfolded r1], of d token] have ?C by auto
    then show ?thesis by blast
  next
    fix zones :: "Domain list" and z :: Domain and result :: "Record list"
    let ?records = "filter (\<lambda>record. Record_Name record = extractRecordName ?fqdn (Domain_Name z)) result"
    assume z: "z \<in> set zones" "Domain_Id z \<noteq> 0"
      and c1: "calls s1 = calls s @ [DomainListEv (Inr zones), RecordListEv (Domain_Name z) (Inr result)]"
      and r1: "r1 = Inr ?records"
    obtain r2 s2 where hz: "getHostedZone ext domain s1 = (r2, s2)"
      by (cases "getHostedZone ext domain s1")
    from assms CleanUp_rest_found [OF ft [unfolded r1], of d token] hz
    have run: "(r, s') = (case r2 of
                  Inl err \<Rightarrow> (Inl (Returned (Errorf_w ''CleanUp(): getHostedZone err: '' err)), s2)
                | Inr (zoneId, zoneName) \<Rightarrow> deleteRecords ext zoneName ?records s2)"
      by simp
    from getHostedZone_cases [OF hz] show ?thesis
    proof (elim disjE exE conjE bexE)
      fix e
      assume "calls s2 = calls s1 @ [DomainListEv (Inl e)]"
        and "r2 = Inl (Errorf_v ''qcloud cns: DomainList() API call failed: '' e)"
      with run c1 z have ?D by auto
      then show ?thesis by blast
    next
      fix zones2 err
      assume "calls s2 = calls s1 @ [DomainListEv (Inr zones2)]" and "r2 = Inl err"
      with run c1 z have ?E by auto
      then show ?thesis by blast
    next
      fix zones2 z2
      assume c2: "calls s2 = calls s1 @ [DomainListEv (Inr zones2)]"
        and z2: "z2 \<in> set zones2" "Domain_Id z2 \<noteq> 0"
        and r2: "r2 = Inr (Sprint_int (Domain_Id z2), Domain_Name z2)"
      from run r2 have dr: "deleteRecords ext (Domain_Name z2) ?records s2 = (r, s')"
        by simp
      from deleteRecords_cases [OF dr] c1 c2 z z2 have ?F
        by (elim disjE exE conjE) (simp, blast)+
      then show ?thesis by blast
    qed
  qed
qed

lemma CleanUp_rest_no_panic: "fst (CleanUp_rest ext d domain token keyAuth s) \<noteq> Inl Panic"
proof -
  obtain r s' where run: "CleanUp_rest ext d domain token keyAuth s = (r, s')"
    by (cases "CleanUp_rest ext d domain token keyAuth s")
  from CleanUp_rest_cases [OF run] have "r \<noteq> Inl Panic"
    by auto
  with run show ?thesis by simp
qed

lemma wildcard_fixup:
  assumes "2 \<le> length domain"
  shows "Present ext d domain token keyAuth s
           = Present_rest ext d (if take 2 domain = ''*.'' then drop 2 domain else domain) token keyAuth s"
    and "CleanUp ext d domain token keyAuth s
           = CleanUp_rest ext d (if take 2 domain = ''*.'' then drop 2 domain else domain) token keyAuth s"
  using assms by (simp_all add: Present_def CleanUp_def)

lemma NewDNSProviderConfig_failures:
  "NewDNSProviderConfig None
     = Inl (ErrorString ''qcloud cns: the configuration of the DNS provider is nil'')"
  "SecretKey c = [] \<Longrightarrow>
     NewDNSProviderConfig (Some c) = Inl (ErrorString ''qcloud cns: credentials missing'')"
  by (simp_all add: NewDNSProviderConfig_def)

lemma NewDNSProvider_env_failure:
  "envGet [''QCLOUD_SECRET_ID'', ''QCLOUD_SECRET_KEY''] = Inl err \<Longrightarrow>
     NewDNSProvider envGet defaultConfig = Inl (WrapError (''qcloud cns: '' @ Error err) err)"
  by (simp add: NewDNSProvider_def Errorf_w_def)

lemma NewDNSProvider_carries_both:
  assumes "envGet [''QCLOUD_SECRET_ID'', ''QCLOUD_SECRET_KEY''] = Inr values"
    and "values ''QCLOUD_SECRET_ID'' = Some secretId" and "values ''QCLOUD_SECRET_KEY'' = Some secretKey"
    and "secretKey \<noteq> []"
  shows "NewDNSProvider envGet defaultConfig
           = Inr \<lparr>config = Some (defaultConfig\<lparr>SecretId := secretId, SecretKey := secretKey\<rparr>),
                  client = Some (cns_New secretId secretKey)\<rparr>"
  using assms by (simp add: NewDNSProvider_def NewDNSProviderConfig_def)

lemma CleanUp_deletes_name_matches:
  assumes "CleanUp ext d domain token keyAuth s = (Inr (), s')"
  shows "\<exists>zones (zone :: Domain) result zones2 (zone2 :: Domain).
           calls s' = calls s @
             [DomainListEv (Inr zones), RecordListEv (Domain_Name zone) (Inr result),
              DomainListEv (Inr zones2)]
             @ map (deleteEv (Domain_Name zone2))
                 (filter (\<lambda>record. Record_Name record
                    = extractRecordName
                        (fst (GetRecord ext (if take 2 domain = ''*.'' then drop 2 domain else domain) keyAuth))
                        (Domain_Name zone)) result)"
proof -
  let ?domain = "if take 2 domain = ''*.'' then drop 2 domain else domain"
  from assms have "2 \<le> length domain"
    by (auto simp: CleanUp_def split: if_splits)
  with assms have "CleanUp_rest ext d ?domain token keyAuth s = (Inr (), s')"
    by (simp add: CleanUp_def)
  from CleanUp_rest_cases [OF this] show ?thesis
  proof (elim disjE exE conjE)
    fix zones :: "Domain list" and z :: Domain and result :: "Record list" and zones2 :: "Domain list"
      and z2 :: Domain and tail :: "event list"
    assume "calls s' = calls s @ [DomainListEv (Inr zones), RecordListEv (Domain_Name z) (Inr result),
                                      DomainListEv (Inr zones2)] @ tail"
      and "tail = map (deleteEv (Domain_Name z2))
                     (filter (\<lambda>record. Record_Name record
                        = extractRecordName (fst (GetRecord ext ?domain keyAuth)) (Domain_Name z)) result)"
    then have "calls s' = calls s @ [DomainListEv (Inr zones), RecordListEv (Domain_Name z) (Inr result),
                                      DomainListEv (Inr zones2)]
        @ map (deleteEv (Domain_Name z2))
                     (filter (\<lambda>record. Record_Name record
                        = extractRecordName (fst (GetRecord ext ?domain keyAuth)) (Domain_Name z)) result)"
      by simp
    then show ?thesis
      by blast
  qed simp_all
qed

lemma demo_CleanUp_locked:
  "CleanUp (demo_outside demo_zones [8]) demo_provider ''example.com'' ''token'' ''keyAuth'' demo_state
     = (Inl (Returned (WrapError ''CleanUp(): qcloud cns: RecordDelete err: record is locked''
                         (ErrorString ''record is locked''))),
        \<lparr>calls = [DomainListEv (Inr demo_zones), RecordListEv ''example.com'' (Inr demo_records),
                  DomainListEv (Inr demo_zones), RecordDeleteEv ''example.com'' 7 None,
                  RecordDeleteEv ''example.com'' 8 (Some (ErrorString ''record is locked''))],
         world = tl demo_records\<rparr>)"
  by (simp add: demo_defs model_defs Errorf_w_def)

lemma deleteEv_facts:
  "failed (deleteEv zoneName rec) = None"
  "site_of (deleteEv zoneName rec) = RecordDelete_site"
  "is_delete (deleteEv zoneName rec)"
  "phase (deleteEv zoneName rec) = 2"
  by (simp_all add: deleteEv_def)

lemma executed_simps:
  "executed site [] = 0"
  "executed site (ev # evs) = (if site_of ev = site then Suc (executed site evs) else executed site evs)"
  "executed site (evs @ evs') = executed site evs + executed site evs'"
  by (induction evs) (simp_all add: executed_def)

lemma executed_deletes:
  "executed site (map (deleteEv zoneName) records)
     = (if site = RecordDelete_site then length records else 0)"
  by (induction records) (auto simp: executed_simps deleteEv_facts)

lemma deleted_append: "deleted (evs @ evs') = deleted evs @ deleted evs'"
  by (induction evs rule: deleted.induct) simp_all

lemma deleted_deletes: "deleted (map (deleteEv zoneName) records) = map Record_Id records"
  by (induction records) (simp_all add: deleteEv_def)

lemma found_records_append:
  "found_records fqdn (evs @ evs') = found_records fqdn evs @ found_records fqdn evs'"
  by (induction fqdn evs rule: found_records.induct) simp_all

lemma found_records_deletes: "found_records fqdn (map (deleteEv zoneName) records) = []"
  by (induction records) (simp_all add: deleteEv_def)

lemma list_all_deletes: "list_all is_delete (map (deleteEv zoneName) records)"
  by (induction records) (simp_all add: deleteEv_facts)

lemma Present_rest_no_retry:
  assumes "Present_rest ext d domain token keyAuth s = (r, s')"
  shows "\<exists>new. calls s' = calls s @ new \<and> Present_no_retry new r"
  using Present_rest_cases [OF assms]
proof (elim disjE exE conjE)
  fix e
  assume c: "calls s' = calls s @ [DomainListEv (Inl e)]"
    and r: "r = Inl (Returned (Errorf_v ''qcloud cns: DomainList() API call failed: '' e))"
  have "Present_no_retry [DomainListEv (Inl e)] r"
    by (simp add: Present_no_retry_def executed_simps r)
  with c show ?thesis by blast
next
  fix zones f
  assume c: "calls s' = calls s @ [DomainListEv (Inr zones)]"
  have "Present_no_retry [DomainListEv (Inr zones)] r"
    by (simp add: Present_no_retry_def executed_simps)
  with c show ?thesis by blast
next
  fix zones :: "Domain list" and zone :: Domain and c :: Config and cr :: "goerror + int"
  let ?rec = "newTxtRecord (Domain_Name zone) (fst (GetRecord ext domain keyAuth))
                       (snd (GetRecord ext domain keyAuth)) (TTL c)"
  assume c: "calls s' = calls s @ [DomainListEv (Inr zones), RecordCreateEv (Domain_Name zone) ?rec cr]"
    and r: "r = (case cr of
                   Inl e \<Rightarrow> Inl (Returned (Errorf_v ''qcloud cns: RecordCreate() API call failed: '' e))
                 | Inr recordId \<Rightarrow> Inr ())"
  have "Present_no_retry [DomainListEv (Inr zones), RecordCreateEv (Domain_Name zone) ?rec cr] r"
    by (cases cr) (simp_all add: Present_no_retry_def executed_simps r)
  with c show ?thesis by blast
qed

lemma CleanUp_rest_no_retry:
  assumes "CleanUp_rest ext d domain token keyAuth s = (r, s')"
  shows "\<exists>new. calls s' = calls s @ new
           \<and> CleanUp_no_retry (fst (GetRecord ext domain keyAuth)) new r"
  using CleanUp_rest_cases [OF assms]
proof (elim disjE exE conjE)
  fix e
  assume c: "calls s' = calls s @ [DomainListEv (Inl e)]"
    and r: "r = Inl (Returned (Errorf_w ''CleanUp(): findTxtRecords err: ''
                     (Errorf_v ''qcloud cns: DomainList() API call failed: '' e)))"
  have "CleanUp_no_retry (fst (GetRecord ext domain keyAuth)) [DomainListEv (Inl e)] r"
    by (simp add: CleanUp_no_retry_def executed_simps r)
  with c show ?thesis by blast
next
  fix zones err
  assume c: "calls s' = calls s @ [DomainListEv (Inr zones)]"
  have "CleanUp_no_retry (fst (GetRecord ext domain keyAuth)) [DomainListEv (Inr zones)] r"
    by (simp add: CleanUp_no_retry_def executed_simps)
  with c show ?thesis by blast
next
  fix zones :: "Domain list" and z :: Domain and e
  assume c: "calls s' = calls s @ [DomainListEv (Inr zones), RecordListEv (Domain_Name z) (Inl e)]"
    and r: "r = Inl (Returned (Errorf_w ''CleanUp(): findTxtRecords err: ''
                     (Errorf_v ''qcloud cns: RecordList() API call has failed: '' e)))"
  have "CleanUp_no_retry (fst (GetRecord ext domain keyAuth))
          [DomainListEv (Inr zones), RecordListEv (Domain_Name z) (Inl e)] r"
    by (simp add: CleanUp_no_retry_def executed_simps r)
  with c show ?thesis by blast
next
  fix zones :: "Domain list" and z :: Domain and result :: "Record list" and e
  assume c: "calls s' = calls s @ [DomainListEv (Inr zones), RecordListEv (Domain_Name z) (Inr result),
                                      DomainListEv (Inl e)]"
    and r: "r = Inl (Returned (Errorf_w ''CleanUp(): getHostedZone err: ''
                     (Errorf_v ''qcloud cns: DomainList() API call failed: '' e)))"
  have "CleanUp_no_retry (fst (GetRecord ext domain keyAuth))
          [DomainListEv (Inr zones), RecordListEv (Domain_Name z) (Inr result), DomainListEv (Inl e)] r"
    by (simp add: CleanUp_no_retry_def executed_simps r)
  with c show ?thesis by blast
next
  fix zones :: "Domain list" and z :: Domain and result :: "Record list" and zones2 :: "Domain list"
  assume c: "calls s' = calls s @ [DomainListEv (Inr zones), RecordListEv (Domain_Name z) (Inr result),
                                      DomainListEv (Inr zones2)]"
  have "CleanUp_no_retry (fst (GetRecord ext domain keyAuth))
          [DomainListEv (Inr zones), RecordListEv (Domain_Name z) (Inr result), DomainListEv (Inr zones2)] r"
    by (simp add: CleanUp_no_retry_def executed_simps)
  with c show ?thesis by blast
next
  fix zones :: "Domain list" and z :: Domain and result :: "Record list" and zones2 :: "Domain list"
    and z2 :: Domain and tail :: "event list"
  let ?listed = "[DomainListEv (Inr zones), RecordListEv (Domain_Name z) (Inr result),
                  DomainListEv (Inr zones2)]"
  let ?records = "filter (\<lambda>record. Record_Name record
                        = extractRecordName (fst (GetRecord ext domain keyAuth)) (Domain_Name z)) result"
  assume c: "calls s' = calls s @ ?listed @ tail"
    and tl: "tail = map (deleteEv (Domain_Name z2)) ?records"
  have "\<forall>ev \<in> set (butlast (?listed @ tail)). failed ev = None"
    unfolding tl by (auto dest!: in_set_butlastD simp: deleteEv_facts)
  moreover have "failed (last (?listed @ tail)) = None"
    unfolding tl by (cases "?records = []") (simp_all add: last_map deleteEv_facts)
  ultimately have "CleanUp_no_retry (fst (GetRecord ext domain keyAuth)) (?listed @ tail) r"
    unfolding tl
    by (simp add: CleanUp_no_retry_def executed_simps executed_deletes deleted_deletes
        found_records_deletes)
  with c show ?thesis by blast
next
  fix zones :: "Domain list" and z :: Domain and result :: "Record list" and zones2 :: "Domain list"
    and z2 :: Domain and tail :: "event list" and pre :: "Record list" and rec :: Record and e
  let ?listed = "[DomainListEv (Inr zones), RecordListEv (Domain_Name z) (Inr result),
                  DomainListEv (Inr zones2)]"
  let ?records = "filter (\<lambda>record. Record_Name record
                        = extractRecordName (fst (GetRecord ext domain keyAuth)) (Domain_Name z)) result"
  let ?fail = "RecordDeleteEv (Domain_Name z2) (Record_Id rec) (Some e)"
  assume c: "calls s' = calls s @ ?listed @ tail"
    and p: "prefix (pre @ [rec]) ?records"
    and tl: "tail = map (deleteEv (Domain_Name z2)) pre @ [?fail]"
    and r: "r = Inl (Returned (Errorf_w ''CleanUp(): qcloud cns: RecordDelete err: '' e))"
  have new: "?listed @ tail = (?listed @ map (deleteEv (Domain_Name z2)) pre) @ [?fail]"
    by (simp add: tl)
  from p have "prefix (map Record_Id (pre @ [rec])) (map Record_Id ?records)"
    by (rule map_mono_prefix)
  then have pd: "prefix (deleted (?listed @ tail)) (map Record_Id (found_records (fst (GetRecord ext domain keyAuth)) (?listed @ tail)))"
    by (simp add: tl deleted_append deleted_deletes found_records_append found_records_deletes)
  have "\<forall>ev \<in> set (butlast (?listed @ tail)). failed ev = None"
    unfolding new butlast_snoc by (auto simp: deleteEv_facts)
  moreover have "last (?listed @ tail) = ?fail" "length (?listed @ tail) - 1 = 3 + length pre"
    unfolding new by simp_all
  moreover have "executed DomainList_site (?listed @ tail) = 2"
    "executed RecordList_site (?listed @ tail) = 1" "executed RecordCreate_site (?listed @ tail) = 0"
    unfolding tl by (simp_all add: executed_simps executed_deletes)
  ultimately have "CleanUp_no_retry (fst (GetRecord ext domain keyAuth)) (?listed @ tail) r"
    using pd unfolding CleanUp_no_retry_def by (simp add: r)
  with c show ?thesis by blast
qed

lemma Present_rest_order:
  assumes "Present_rest ext d domain token keyAuth s = (r, s')"
  shows "\<exists>new. calls s' = calls s @ new \<and> Present_order new
           \<and> (\<forall>zoneName record cr. RecordCreateEv zoneName record cr \<in> set new \<longrightarrow>
                (\<exists>zones w1 authZone w2 zone.
                   DomainList ext (world s) = (Inr zones, w1)
                   \<and> FindZoneByFqdn ext (ToFqdn domain) w1 = (Inr authZone, w2)
                   \<and> matchedZone zones authZone = Some zone \<and> zoneName = Domain_Name zone
                   \<and> new = [DomainListEv (Inr zones), RecordCreateEv zoneName record cr]))"
  using Present_rest_cases [OF assms]
proof (elim disjE exE conjE)
  fix e
  assume "calls s' = calls s @ [DomainListEv (Inl e)]"
  then show ?thesis by (intro exI [of _ "[DomainListEv (Inl e)]"]) simp
next
  fix zones f
  assume "calls s' = calls s @ [DomainListEv (Inr zones)]"
  then show ?thesis by (intro exI [of _ "[DomainListEv (Inr zones)]"]) simp
next
  fix zones w1 authZone w2 and zone :: Domain and c :: Config and cr :: "goerror + int"
  let ?rec = "newTxtRecord (Domain_Name zone) (fst (GetRecord ext domain keyAuth))
                       (snd (GetRecord ext domain keyAuth)) (TTL c)"
  assume "DomainList ext (world s) = (Inr zones, w1)"
    and "FindZoneByFqdn ext (ToFqdn domain) w1 = (Inr authZone, w2)"
    and "matchedZone zones authZone = Some zone"
    and "calls s' = calls s @ [DomainListEv (Inr zones), RecordCreateEv (Domain_Name zone) ?rec cr]"
  then show ?thesis
    by (intro exI [of _ "[DomainListEv (Inr zones), RecordCreateEv (Domain_Name zone) ?rec cr]"]) simp
qed

lemma CleanUp_rest_order:
  assumes "CleanUp_rest ext d domain token keyAuth s = (r, s')"
  shows "\<exists>new. calls s' = calls s @ new \<and> CleanUp_order new"
  using CleanUp_rest_cases [OF assms]
proof (elim disjE exE conjE)
  fix zones :: "Domain list" and z :: Domain and result :: "Record list" and zones2 :: "Domain list"
    and z2 :: Domain and tail :: "event list" and pre :: "Record list" and rec :: Record and e
  let ?listed = "[DomainListEv (Inr zones), RecordListEv (Domain_Name z) (Inr result),
                  DomainListEv (Inr zones2)]"
  assume c: "calls s' = calls s @ ?listed @ tail"
    and tl: "tail = map (deleteEv (Domain_Name z2)) pre
                      @ [RecordDeleteEv (Domain_Name z2) (Record_Id rec) (Some e)]"
  have "CleanUp_order (?listed @ tail)"
    by (simp add: tl list_all_deletes)
  with c show ?thesis by blast
next
  fix zones :: "Domain list" and z :: Domain and result :: "Record list" and zones2 :: "Domain list"
    and z2 :: Domain and tail :: "event list"
  let ?listed = "[DomainListEv (Inr zones), RecordListEv (Domain_Name z) (Inr result),
                  DomainListEv (Inr zones2)]"
  assume c: "calls s' = calls s @ ?listed @ tail"
    and tl: "tail = map (deleteEv (Domain_Name z2))
                     (filter (\<lambda>record. Record_Name record
                        = extractRecordName (fst (GetRecord ext domain keyAuth)) (Domain_Name z)) result)"
  have "CleanUp_order (?listed @ tail)"
    by (simp add: tl list_all_deletes)
  with c show ?thesis by blast
qed (auto intro: exI [of _ "[x]" for x] exI [of _ "[x, y]" for x y] exI [of _ "[x, y, z]" for x y z])

lemma Present_creates_record:
  assumes "Present ext d domain token keyAuth s = (Inr (), s')"
  shows "\<exists>zones zoneName recordId c.
           config d = Some c
           \<and> calls s' = calls s @
             [DomainListEv (Inr zones),
              RecordCreateEv zoneName
                \<lparr>Record_Id = 0, Record_Type = ''TXT'',
                 Record_Name = extractRecordName
                   (fst (GetRecord ext (if take 2 domain = ''*.'' then drop 2 domain else domain) keyAuth))
                   zoneName,
                 Record_Value =
                   snd (GetRecord ext (if take 2 domain = ''*.'' then drop 2 domain else domain) keyAuth),
                 Record_Line = defaultLine, Record_Ttl = TTL c\<rparr>
                (Inr recordId)]"
proof -
  let ?domain = "if take 2 domain = ''*.'' then drop 2 domain else domain"
  from assms have len: "2 \<le> length domain"
    by (auto simp: Present_def split: if_splits)
  with assms have run: "Present_rest ext d ?domain token keyAuth s = (Inr (), s')"
    by (simp add: Present_def)
  from Present_rest_cases [OF run] show ?thesis
  proof (elim disjE exE conjE)
    fix zones :: "Domain list" and zone :: Domain and c :: Config and cr :: "goerror + int"
    assume cfg: "config d = Some c"
      and c: "calls s' = calls s @ [DomainListEv (Inr zones),
          RecordCreateEv (Domain_Name zone)
            (newTxtRecord (Domain_Name zone) (fst (GetRecord ext ?domain keyAuth))
               (snd (GetRecord ext ?domain keyAuth)) (TTL c)) cr]"
      and r: "Inr () = (case cr of
              Inl e \<Rightarrow> Inl (Returned (Errorf_v ''qcloud cns: RecordCreate() API call failed: '' e))
            | Inr recordId \<Rightarrow> (Inr () :: failure + unit))"
    from r obtain recordId where "cr = Inr recordId"
      by (cases cr) auto
    with c cfg show ?thesis
      by (auto simp: newTxtRecord_def)
  qed auto
qed

lemma demo_Present_created:
  "Present (demo_outside demo_zones locked) demo_provider ''example.com'' ''token'' ''keyAuth'' demo_state
     = (Inr (),
        \<lparr>calls = [DomainListEv (Inr demo_zones),
                  RecordCreateEv ''example.com''
                    \<lparr>Record_Id = 0, Record_Type = ''TXT'', Record_Name = ''_acme-challenge'',
                     Record_Value = ''keyAuth'', Record_Line = defaultLine, Record_Ttl = 600\<rparr>
                    (Inr 4)],
         world = demo_records @
           [\<lparr>Record_Id = 4, Record_Type = ''TXT'', Record_Name = ''_acme-challenge'',
             Record_Value = ''keyAuth'', Record_Line = defaultLine, Record_Ttl = 600\<rparr>]\<rparr>)"
  by (simp add: demo_defs model_defs)

lemma demo_Present_unreachable:
  "Present demo_unreachable demo_provider ''example.com'' ''token'' ''keyAuth'' demo_state
     = (Inl (Returned (ErrorString ''qcloud cns: DomainList() API call failed: connection refused'')),
        \<lparr>calls = [DomainListEv (Inl (ErrorString ''connection refused''))],
         world = demo_records\<rparr>)"
  by (simp add: demo_unreachable_def demo_defs model_defs Errorf_v_def)

lemma demo_CleanUp_deleted:
  "CleanUp (demo_outside demo_zones []) demo_provider ''example.com'' ''token'' ''keyAuth'' demo_state
     = (Inr (),
        \<lparr>calls = [DomainListEv (Inr demo_zones), RecordListEv ''example.com'' (Inr demo_records),
                  DomainListEv (Inr demo_zones), RecordDeleteEv ''example.com'' 7 None,
                  RecordDeleteEv ''example.com'' 8 None],
         world = [last demo_records]\<rparr>)"
  by (simp add: demo_defs model_defs)

section \<open>The claims\<close>

text \<open>
  C7, as the claim states it, at the zero value \<open>DNSProvider{}\<close> of the exported type:
  its \<open>config\<close> is nil, and \<open>Timeout\<close> panics on \<open>d.config.PropagationTimeout\<close>.
\<close>

theorem Timeout_zero_value_panics:
  "Timeout \<lparr>config = None, client = None\<rparr> demo_state = (Inl Panic, demo_state)"
  by (simp add: Timeout_def)

text \<open>
  C7, amended. For every provider whose \<open>config\<close> is not nil, and so for every provider
  that \<open>NewDNSProviderConfig\<close> returns, \<open>Timeout\<close> returns the propagation timeout and the
  polling interval of the configuration, as they are stored; it does not fail, and it
  changes neither the outside world nor the recorded calls.
\<close>

theorem Timeout_returns_configured_durations:
  "(config d = Some c \<longrightarrow>
      Timeout d s = (Inr (PropagationTimeout c, PollingInterval c), s))
   \<and> (NewDNSProviderConfig cfg = Inr d \<longrightarrow>
        (\<exists>c. cfg = Some c \<and> config d = Some c
           \<and> Timeout d s = (Inr (PropagationTimeout c, PollingInterval c), s)))"
  by (auto simp: Timeout_def NewDNSProviderConfig_def split: option.splits if_splits)

theorem Timeout_returns_configured_durations_witness:
  "config demo_provider = Some demo_config
   \<and> NewDNSProviderConfig (Some demo_config) = Inr demo_provider
   \<and> Timeout demo_provider demo_state = (Inr (60000000000, 2000000000), demo_state)"
  using Timeout_returns_configured_durations
    [of demo_provider demo_config demo_state "Some demo_config"]
  by (simp add: demo_provider_def demo_config_def NewDNSProviderConfig_def cns_New_def)

text \<open>
  C4. \<open>Present\<close> and \<open>CleanUp\<close> evaluate \<open>domain[:2]\<close> first: on a domain of fewer than
  two bytes both panic, they return no error value, and they call nothing.
\<close>

theorem short_domain_panics:
  "length domain < 2 \<Longrightarrow>
     Present ext d domain token keyAuth s = (Inl Panic, s)
     \<and> CleanUp ext d domain token keyAuth s = (Inl Panic, s)"
  by (simp add: Present_def CleanUp_def)

theorem short_domain_panics_witness:
  "length ''a'' < 2
   \<and> Present (demo_outside demo_zones []) demo_provider ''a'' ''token'' ''keyAuth'' demo_state
       = (Inl Panic, demo_state)
   \<and> CleanUp (demo_outside demo_zones []) demo_provider ''a'' ''token'' ''keyAuth'' demo_state
       = (Inl Panic, demo_state)"
  using short_domain_panics [of "''a''" "demo_outside demo_zones []" demo_provider "''token''" "''keyAuth''" demo_state]
  by simp

text \<open>
  C3, at the domain \<open>a\<close>. The domain does not begin with \<open>*.\<close>, and yet neither method
  goes on with it unchanged: both panic before any call, whereas the rest of either
  method does not. For a domain of two bytes or more, \<open>wildcard_fixup\<close> above is what the
  claim says.
\<close>

theorem single_character_domain_not_used:
  "take 2 ''a'' \<noteq> ''*.''
   \<and> Present ext d ''a'' token keyAuth s = (Inl Panic, s)
   \<and> Present ext d ''a'' token keyAuth s \<noteq> Present_rest ext d ''a'' token keyAuth s
   \<and> CleanUp ext d ''a'' token keyAuth s = (Inl Panic, s)
   \<and> CleanUp ext d ''a'' token keyAuth s \<noteq> CleanUp_rest ext d ''a'' token keyAuth s"
proof -
  have p: "Present ext d ''a'' token keyAuth s = (Inl Panic, s)"
    and c: "CleanUp ext d ''a'' token keyAuth s = (Inl Panic, s)"
    by (simp_all add: Present_def CleanUp_def)
  from Present_rest_calls [of ext d "''a''" token keyAuth s]
  have "Present_rest ext d ''a'' token keyAuth s \<noteq> (Inl Panic, s)" by auto
  moreover from CleanUp_rest_no_panic [of ext d "''a''" token keyAuth s]
  have "CleanUp_rest ext d ''a'' token keyAuth s \<noteq> (Inl Panic, s)" by auto
  ultimately show ?thesis using p c by simp
qed

text \<open>
  C6, at a configuration whose \<open>SecretId\<close> is empty and whose \<open>SecretKey\<close> is not:
  \<open>NewDNSProviderConfig\<close> checks the key only and builds a provider whose client has an
  empty secret id.
\<close>

theorem NewDNSProviderConfig_accepts_empty_SecretId:
  "NewDNSProviderConfig (Some (c\<lparr>SecretId := [], SecretKey := ''key''\<rparr>))
     = Inr \<lparr>config = Some (c\<lparr>SecretId := [], SecretKey := ''key''\<rparr>),
            client = Some (cns_New [] ''key'')\<rparr>
   \<and> Client_SecretId (cns_New [] ''key'') = []"
  by (simp add: NewDNSProviderConfig_def cns_New_def)

text \<open>
  C2, at a name in which the dot and the zone occur twice. \<open>extractRecordName\<close> cuts
  the name at the first occurrence, whereas removing the zone suffix from the end leaves
  the label \<open>example.com\<close> below the zone in place. The two agree where the dot and the
  zone occur at the end of the name only (\<open>extractRecordName_strips_suffix\<close> above).
\<close>

theorem extractRecordName_cuts_at_first_occurrence:
  "extractRecordName ''_acme-challenge.a.example.com.example.com.'' ''example.com''
     = ''_acme-challenge.a''
   \<and> stripZoneSuffix ''_acme-challenge.a.example.com.example.com.'' ''example.com''
     = ''_acme-challenge.a.example.com''"
  by code_simp

text \<open>
  C5, at the domain \<open>a.example.com.example.com\<close> of the zone \<open>example.com\<close>. \<open>Present\<close>
  succeeds, and the record that it passes to \<open>RecordCreate\<close> has the type \<open>TXT\<close>, the
  challenge's value and the configured TTL, but not the leaf name of the challenge's FQDN
  in the zone, \<open>_acme-challenge.a.example.com\<close>: its name is cut at the first occurrence
  of the zone. On every successful \<open>Present\<close> the record is the one of
  \<open>Present_creates_record\<close> above.
\<close>

theorem Present_creates_record_under_cut_name:
  "GetRecord (demo_outside demo_zones []) ''a.example.com.example.com'' ''keyAuth''
     = (''_acme-challenge.a.example.com.example.com.'', ''keyAuth'')
   \<and> Present (demo_outside demo_zones []) demo_provider ''a.example.com.example.com''
        ''token'' ''keyAuth'' demo_state
     = (Inr (), \<lparr>calls = [DomainListEv (Inr demo_zones),
          RecordCreateEv ''example.com''
            \<lparr>Record_Id = 0, Record_Type = ''TXT'', Record_Name = ''_acme-challenge.a'',
             Record_Value = ''keyAuth'', Record_Line = defaultLine, Record_Ttl = 600\<rparr> (Inr 4)],
        world = demo_records @ [\<lparr>Record_Id = 4, Record_Type = ''TXT'',
             Record_Name = ''_acme-challenge.a'',
             Record_Value = ''keyAuth'', Record_Line = defaultLine, Record_Ttl = 600\<rparr>]\<rparr>)
   \<and> stripZoneSuffix ''_acme-challenge.a.example.com.example.com.'' ''example.com''
     = ''_acme-challenge.a.example.com''"
  by (simp add: demo_defs model_defs stripZoneSuffix_def suffix_def)

text \<open>
  C10. When \<open>DomainList\<close> and the zone lookup succeed, \<open>getHostedZone\<close> selects the last
  of the listed zones whose name is the un-FQDN'd authoritative zone. If that zone's
  \<open>Id\<close> is 0, the outcome is the one of no match at all: the error that the zone was not
  found; \<open>Present\<close> and \<open>CleanUp\<close> then return it after the one \<open>DomainList\<close> call, and
  create or delete nothing.
\<close>

theorem getHostedZone_last_match_nonzero_Id:
  assumes "DomainList ext (world s) = (Inr zones, w1)"
    and "FindZoneByFqdn ext (ToFqdn domain) w1 = (Inr authZone, w2)"
    and "2 \<le> length domain0"
    and "domain = (if take 2 domain0 = ''*.'' then drop 2 domain0 else domain0)"
  shows "(let matching = filter (\<lambda>zone. Domain_Name zone = UnFqdn authZone) zones;
              s2 = \<lparr>calls = calls s @ [DomainListEv (Inr zones)], world = w2\<rparr>;
              notFound = ErrorString (''getHostedZone: zone '' @ authZone
                 @ '' not found in qcloud cns for domain '' @ domain)
          in if matching \<noteq> [] \<and> Domain_Id (last matching) \<noteq> 0
             then getHostedZone ext domain s
                    = (Inr (Sprint_int (Domain_Id (last matching)), Domain_Name (last matching)), s2)
             else getHostedZone ext domain s = (Inl notFound, s2)
                \<and> Present ext d domain0 token keyAuth s = (Inl (Returned notFound), s2)
                \<and> CleanUp ext d domain0 token keyAuth s
                    = (Inl (Returned (Errorf_w ''CleanUp(): findTxtRecords err: '' notFound)), s2))"
proof -
  let ?matching = "filter (\<lambda>zone. Domain_Name zone = UnFqdn authZone) zones"
  let ?s2 = "\<lparr>calls = calls s @ [DomainListEv (Inr zones)], world = w2\<rparr>"
  let ?notFound = "ErrorString (''getHostedZone: zone '' @ authZone
                 @ '' not found in qcloud cns for domain '' @ domain)"
  note hz = getHostedZone_eval [OF assms(1,2)]
  show ?thesis
  proof (cases "?matching \<noteq> [] \<and> Domain_Id (last ?matching) \<noteq> 0")
    case True
    with hz show ?thesis by (simp add: Let_def)
  next
    case False
    with hz have nf: "getHostedZone ext domain s = (Inl ?notFound, ?s2)"
      by (auto simp: Let_def)
    obtain fqdn val where gr: "GetRecord ext domain keyAuth = (fqdn, val)"
      by (cases "GetRecord ext domain keyAuth")
    from nf gr have p: "Present_rest ext d domain token keyAuth s = (Inl (Returned ?notFound), ?s2)"
      by (simp add: Present_rest_def)
    from nf gr have c: "CleanUp_rest ext d domain token keyAuth s
        = (Inl (Returned (Errorf_w ''CleanUp(): findTxtRecords err: '' ?notFound)), ?s2)"
      by (simp add: CleanUp_rest_def findTxtRecords_def)
    from assms(3,4) p have "Present ext d domain0 token keyAuth s = (Inl (Returned ?notFound), ?s2)"
      by (simp add: Present_def)
    moreover from assms(3,4) c have "CleanUp ext d domain0 token keyAuth s
        = (Inl (Returned (Errorf_w ''CleanUp(): findTxtRecords err: '' ?notFound)), ?s2)"
      by (simp add: CleanUp_def)
    ultimately show ?thesis using False nf by (simp add: Let_def)
  qed
qed

theorem getHostedZone_last_match_nonzero_Id_witness:
  "getHostedZone (demo_outside demo_zones_twice []) ''example.com'' demo_state
     = (Inr (''13'', ''example.com''),
        \<lparr>calls = [DomainListEv (Inr demo_zones_twice)], world = demo_records\<rparr>)
   \<and> Present (demo_outside demo_zones_zero []) demo_provider ''*.example.com'' ''token'' ''keyAuth'' demo_state
     = (Inl (Returned (ErrorString
          ''getHostedZone: zone example.com. not found in qcloud cns for domain example.com'')),
        \<lparr>calls = [DomainListEv (Inr demo_zones_zero)], world = demo_records\<rparr>)
   \<and> CleanUp (demo_outside demo_zones_zero []) demo_provider ''*.example.com'' ''token'' ''keyAuth'' demo_state
     = (Inl (Returned (WrapError
          ''CleanUp(): findTxtRecords err: getHostedZone: zone example.com. not found in qcloud cns for domain example.com''
          (ErrorString
          ''getHostedZone: zone example.com. not found in qcloud cns for domain example.com''))),
        \<lparr>calls = [DomainListEv (Inr demo_zones_zero)], world = demo_records\<rparr>)"
proof -
  have a: "DomainList (demo_outside demo_zones_twice []) (world demo_state) = (Inr demo_zones_twice, demo_records)"
    and b: "FindZoneByFqdn (demo_outside demo_zones_twice []) (ToFqdn ''example.com'') demo_records
              = (Inr ''example.com.'', demo_records)"
    and a0: "DomainList (demo_outside demo_zones_zero []) (world demo_state) = (Inr demo_zones_zero, demo_records)"
    and b0: "FindZoneByFqdn (demo_outside demo_zones_zero []) (ToFqdn ''example.com'') demo_records
              = (Inr ''example.com.'', demo_records)"
    and l: "2 \<le> length ''example.com''" "2 \<le> length ''*.example.com''"
    and e: "''example.com'' = (if take 2 ''example.com'' = ''*.'' then drop 2 ''example.com'' else ''example.com'')"
      "''example.com'' = (if take 2 ''*.example.com'' = ''*.'' then drop 2 ''*.example.com'' else ''*.example.com'')"
    by (simp_all add: demo_outside_def demo_state_def)
  from getHostedZone_last_match_nonzero_Id [OF a b l(1) e(1), of demo_provider "''token''" "''keyAuth''"]
       getHostedZone_last_match_nonzero_Id [OF a0 b0 l(2) e(2), of demo_provider "''token''" "''keyAuth''"]
  show ?thesis
    by (simp add: demo_zones_twice_def demo_zones_zero_def demo_state_def UnFqdn_def Sprint_int_def
        Errorf_w_def Let_def)
qed

text \<open>
  C9, as the claim states it, at a \<open>CleanUp\<close> that finds two records: the domains are
  listed a second time after the records have been listed, so the calls are not in the
  order of listing the domains, then listing the records, then deleting.
\<close>

theorem CleanUp_lists_domains_after_records:
  "map phase (calls (snd
     (CleanUp (demo_outside demo_zones []) demo_provider ''example.com'' ''token'' ''keyAuth'' demo_state)))
     = [0, 1, 0, 2, 2]
   \<and> \<not> sorted (map phase (calls (snd
     (CleanUp (demo_outside demo_zones []) demo_provider ''example.com'' ''token'' ''keyAuth'' demo_state))))"
  by (simp add: demo_CleanUp_deleted)

text \<open>
  C9, amended. The calls of \<open>Present\<close> are, in this order, \<open>DomainList\<close> and then at most
  one \<open>RecordCreate\<close>, which is made only after \<open>DomainList\<close> has succeeded and the zone
  passed to it has been matched: it is the last of the listed zones with the name of the
  authoritative zone of the domain, and its \<open>Id\<close> is not 0. The calls of \<open>CleanUp\<close> are,
  in this order, \<open>DomainList\<close>, \<open>RecordList\<close>, \<open>DomainList\<close> a second time and then the
  \<open>RecordDelete\<close> calls; each listing is made only after the listings before it have
  succeeded, and no record is deleted before the three listings have succeeded.
\<close>

theorem vendor_calls_in_order:
  "(\<exists>new. calls (snd (Present ext d domain token keyAuth s)) = calls s @ new
       \<and> Present_order new
       \<and> (\<forall>zoneName record cr. RecordCreateEv zoneName record cr \<in> set new \<longrightarrow>
            (\<exists>zones w1 authZone w2 zone.
               DomainList ext (world s) = (Inr zones, w1)
               \<and> FindZoneByFqdn ext
                    (ToFqdn (if take 2 domain = ''*.'' then drop 2 domain else domain)) w1
                  = (Inr authZone, w2)
               \<and> matchedZone zones authZone = Some zone \<and> zoneName = Domain_Name zone
               \<and> new = [DomainListEv (Inr zones), RecordCreateEv zoneName record cr])))
   \<and> (\<exists>new. calls (snd (CleanUp ext d domain token keyAuth s)) = calls s @ new
       \<and> CleanUp_order new)"
proof (cases "length domain < 2")
  case True
  then show ?thesis by (simp add: Present_def CleanUp_def)
next
  case False
  let ?domain = "if take 2 domain = ''*.'' then drop 2 domain else domain"
  obtain r1 s1 where p: "Present_rest ext d ?domain token keyAuth s = (r1, s1)"
    by (cases "Present_rest ext d ?domain token keyAuth s")
  obtain r2 s2 where c: "CleanUp_rest ext d ?domain token keyAuth s = (r2, s2)"
    by (cases "CleanUp_rest ext d ?domain token keyAuth s")
  from False p have "snd (Present ext d domain token keyAuth s) = s1"
    by (simp add: Present_def)
  moreover from False c have "snd (CleanUp ext d domain token keyAuth s) = s2"
    by (simp add: CleanUp_def)
  ultimately show ?thesis
    using Present_rest_order [OF p] CleanUp_rest_order [OF c] by simp
qed

theorem vendor_calls_in_order_witness:
  "calls (snd (Present (demo_outside demo_zones []) demo_provider ''example.com'' ''token'' ''keyAuth''
      demo_state))
     = [DomainListEv (Inr demo_zones),
        RecordCreateEv ''example.com''
          \<lparr>Record_Id = 0, Record_Type = ''TXT'', Record_Name = ''_acme-challenge'',
           Record_Value = ''keyAuth'', Record_Line = defaultLine, Record_Ttl = 600\<rparr> (Inr 4)]
   \<and> Present_order
       [DomainListEv (Inr demo_zones),
        RecordCreateEv ''example.com''
          \<lparr>Record_Id = 0, Record_Type = ''TXT'', Record_Name = ''_acme-challenge'',
           Record_Value = ''keyAuth'', Record_Line = defaultLine, Record_Ttl = 600\<rparr> (Inr 4)]
   \<and> FindZoneByFqdn (demo_outside demo_zones []) (ToFqdn ''example.com'') demo_records
     = (Inr ''example.com.'', demo_records)
   \<and> matchedZone demo_zones ''example.com.'' = Some \<lparr>Domain_Id = 12, Domain_Name = ''example.com''\<rparr>
   \<and> calls (snd (CleanUp (demo_outside demo_zones []) demo_provider ''example.com'' ''token'' ''keyAuth''
      demo_state))
     = [DomainListEv (Inr demo_zones), RecordListEv ''example.com'' (Inr demo_records),
        DomainListEv (Inr demo_zones), RecordDeleteEv ''example.com'' 7 None,
        RecordDeleteEv ''example.com'' 8 None]
   \<and> CleanUp_order
       [DomainListEv (Inr demo_zones), RecordListEv ''example.com'' (Inr demo_records),
        DomainListEv (Inr demo_zones), RecordDeleteEv ''example.com'' 7 None,
        RecordDeleteEv ''example.com'' 8 None]"
proof -
  have fz: "FindZoneByFqdn (demo_outside demo_zones []) (ToFqdn ''example.com'') demo_records
     = (Inr ''example.com.'', demo_records)"
    by (simp add: demo_outside_def)
  have mz: "matchedZone demo_zones ''example.com.'' = Some \<lparr>Domain_Id = 12, Domain_Name = ''example.com''\<rparr>"
    by (simp add: matchedZone_def demo_zones_def UnFqdn_def)
  from vendor_calls_in_order [of "demo_outside demo_zones []" demo_provider "''example.com''"
      "''token''" "''keyAuth''" demo_state]
  have "(\<exists>new. [DomainListEv (Inr demo_zones),
                  RecordCreateEv ''example.com''
                    \<lparr>Record_Id = 0, Record_Type = ''TXT'', Record_Name = ''_acme-challenge'',
                     Record_Value = ''keyAuth'', Record_Line = defaultLine, Record_Ttl = 600\<rparr>
                    (Inr 4)] = calls demo_state @ new \<and> Present_order new)
      \<and> (\<exists>new. [DomainListEv (Inr demo_zones), RecordListEv ''example.com'' (Inr demo_records),
                  DomainListEv (Inr demo_zones), RecordDeleteEv ''example.com'' 7 None,
                  RecordDeleteEv ''example.com'' 8 None] = calls demo_state @ new
            \<and> CleanUp_order new)"
    by (simp add: demo_CleanUp_deleted demo_Present_created) blast
  with fz mz show ?thesis
    by (simp add: demo_CleanUp_deleted demo_Present_created)
qed

text \<open>
  C8, as the claim states it. At a \<open>CleanUp\<close> whose second \<open>RecordDelete\<close> fails, the
  call site of \<open>DomainList\<close> and the call site of \<open>RecordDelete\<close> have each been executed
  twice on the failure path, not at most once. At a \<open>Present\<close> whose \<open>DomainList\<close> fails,
  the error returned carries the message of the vendor's error behind the contextual
  message, but it does not wrap the vendor's error: it is formatted with \<open>%v\<close>.
\<close>

theorem CleanUp_failure_path_repeats_call_sites:
  "fst (CleanUp (demo_outside demo_zones [8]) demo_provider ''example.com'' ''token'' ''keyAuth'' demo_state)
     = Inl (Returned (WrapError ''CleanUp(): qcloud cns: RecordDelete err: record is locked''
                         (ErrorString ''record is locked'')))
   \<and> executed DomainList_site (calls (snd
        (CleanUp (demo_outside demo_zones [8]) demo_provider ''example.com'' ''token'' ''keyAuth'' demo_state)))
       = 2
   \<and> executed RecordDelete_site (calls (snd
        (CleanUp (demo_outside demo_zones [8]) demo_provider ''example.com'' ''token'' ''keyAuth'' demo_state)))
       = 2
   \<and> Present demo_unreachable demo_provider ''example.com'' ''token'' ''keyAuth'' demo_state
     = (Inl (Returned (ErrorString ''qcloud cns: DomainList() API call failed: connection refused'')),
        \<lparr>calls = [DomainListEv (Inl (ErrorString ''connection refused''))],
         world = demo_records\<rparr>)
   \<and> Unwrap (ErrorString ''qcloud cns: DomainList() API call failed: connection refused'') = None"
  by (simp add: demo_CleanUp_locked demo_Present_unreachable executed_simps)

text \<open>
  C8, amended. When a vendor call fails during \<open>Present\<close> or \<open>CleanUp\<close>, it is the last
  call that the method makes, and the method returns the error that belongs to that
  call: the message of the vendor's error behind the contextual message of the call (the
  vendor's error itself is wrapped for \<open>RecordDelete\<close> only). Nothing is retried: on every
  path \<open>Present\<close> executes \<open>DomainList\<close> and \<open>RecordCreate\<close> at most once each, and \<open>CleanUp\<close>
  executes \<open>RecordList\<close> at most once, \<open>DomainList\<close> at most twice and \<open>RecordDelete\<close> at
  most once for each record found, in the order found.
\<close>

theorem failed_call_is_last_and_returned:
  "(\<exists>new. calls (snd (Present ext d domain token keyAuth s)) = calls s @ new
       \<and> Present_no_retry new (fst (Present ext d domain token keyAuth s)))
   \<and> (\<exists>new. calls (snd (CleanUp ext d domain token keyAuth s)) = calls s @ new
       \<and> CleanUp_no_retry
            (fst (GetRecord ext (if take 2 domain = ''*.'' then drop 2 domain else domain) keyAuth))
            new (fst (CleanUp ext d domain token keyAuth s)))"
proof (cases "length domain < 2")
  case True
  have "Present_no_retry [] (Inl Panic)" "CleanUp_no_retry fqdn [] (Inl Panic)" for fqdn
    by (simp_all add: Present_no_retry_def CleanUp_no_retry_def executed_simps)
  with True show ?thesis by (simp add: Present_def CleanUp_def)
next
  case False
  let ?domain = "if take 2 domain = ''*.'' then drop 2 domain else domain"
  obtain r1 s1 where p: "Present_rest ext d ?domain token keyAuth s = (r1, s1)"
    by (cases "Present_rest ext d ?domain token keyAuth s")
  obtain r2 s2 where c: "CleanUp_rest ext d ?domain token keyAuth s = (r2, s2)"
    by (cases "CleanUp_rest ext d ?domain token keyAuth s")
  from False p have "Present ext d domain token keyAuth s = (r1, s1)"
    by (simp add: Present_def)
  moreover from False c have "CleanUp ext d domain token keyAuth s = (r2, s2)"
    by (simp add: CleanUp_def)
  ultimately show ?thesis
    using Present_rest_no_retry [OF p] CleanUp_rest_no_retry [OF c] by simp
qed

theorem failed_call_is_last_and_returned_witness:
  "Present_no_retry
     [DomainListEv (Inr demo_zones),
      RecordCreateEv ''example.com''
        \<lparr>Record_Id = 0, Record_Type = ''TXT'', Record_Name = ''_acme-challenge'',
         Record_Value = ''keyAuth'', Record_Line = defaultLine, Record_Ttl = 600\<rparr> (Inr 4)]
     (fst (Present (demo_outside demo_zones [8]) demo_provider ''example.com'' ''token'' ''keyAuth''
        demo_state))
   \<and> CleanUp_no_retry ''_acme-challenge.example.com.''
        [DomainListEv (Inr demo_zones), RecordListEv ''example.com'' (Inr demo_records),
         DomainListEv (Inr demo_zones), RecordDeleteEv ''example.com'' 7 None,
         RecordDeleteEv ''example.com'' 8 (Some (ErrorString ''record is locked''))]
        (fst (CleanUp (demo_outside demo_zones [8]) demo_provider ''example.com'' ''token'' ''keyAuth''
           demo_state))
   \<and> fst (CleanUp (demo_outside demo_zones [8]) demo_provider ''example.com'' ''token'' ''keyAuth''
           demo_state)
     = Inl (Returned (WrapError ''CleanUp(): qcloud cns: RecordDelete err: record is locked''
                         (ErrorString ''record is locked'')))"
proof -
  from failed_call_is_last_and_returned [of "demo_outside demo_zones [8]" demo_provider
      "''example.com''" "''token''" "''keyAuth''" demo_state]
  have "(\<exists>new. [DomainListEv (Inr demo_zones),
                  RecordCreateEv ''example.com''
                    \<lparr>Record_Id = 0, Record_Type = ''TXT'', Record_Name = ''_acme-challenge'',
                     Record_Value = ''keyAuth'', Record_Line = defaultLine, Record_Ttl = 600\<rparr>
                    (Inr 4)] = calls demo_state @ new
            \<and> Present_no_retry new (Inr ()))
      \<and> (\<exists>new. [DomainListEv (Inr demo_zones), RecordListEv ''example.com'' (Inr demo_records),
                  DomainListEv (Inr demo_zones), RecordDeleteEv ''example.com'' 7 None,
                  RecordDeleteEv ''example.com'' 8 (Some (ErrorString ''record is locked''))]
                 = calls demo_state @ new
            \<and> CleanUp_no_retry
                 (fst (GetRecord (demo_outside demo_zones [8]) ''example.com'' ''keyAuth'')) new
                 (Inl (Returned (WrapError ''CleanUp(): qcloud cns: RecordDelete err: record is locked''
                         (ErrorString ''record is locked'')))))"
    by (simp add: demo_CleanUp_locked demo_Present_created)
  then show ?thesis
    by (simp add: demo_CleanUp_locked demo_Present_created)
       (simp add: demo_state_def demo_outside_def demo_GetRecord_def)
qed

text \<open>
  C1, at a zone that holds a CNAME record with the leaf name of the challenge, besides
  a TXT record with that name: \<open>CleanUp\<close> deletes both, the record of the other type
  too. \<open>findTxtRecords\<close> compares the names only (\<open>CleanUp_deletes_name_matches\<close> above).
\<close>

theorem CleanUp_deletes_record_of_other_type:
  "CleanUp (demo_outside demo_zones []) demo_provider ''example.com'' ''token'' ''keyAuth'' demo_state
     = (Inr (),
        \<lparr>calls = [DomainListEv (Inr demo_zones), RecordListEv ''example.com'' (Inr demo_records),
                  DomainListEv (Inr demo_zones), RecordDeleteEv ''example.com'' 7 None,
                  RecordDeleteEv ''example.com'' 8 None],
         world = [last demo_records]\<rparr>)
   \<and> map Record_Type (filter (\<lambda>record. Record_Id record = 8) demo_records) = [''CNAME'']"
  by (simp add: demo_defs model_defs)

end
